theory Spec2Isabelle
  imports Main "HOL-Library.Product_Lexorder"
begin

section \<open>Values, errors and output of the script\<close>

text \<open>
  The script \<^verbatim>\<open>get_links.py\<close> reads a roster file, asks a remote directory for the
  users of a challenge, and prints one line per roster entry.  Everything the script
  does beyond computing values is explicit here: the file system and the remote
  service are inputs, the text written to the two output streams is a list of events,
  and an exception that nothing catches is a value of \<open>py_error\<close>.

  Strings are lists of characters; a character stands for a code point below U+0100.
  JSON values are the scalars that the fields read by the script carry.
\<close>

datatype py_error =
    FileNotFoundError
  | OSError
  | AttributeError
  | KeyError
  | ValueError string
  | CsvError
  | RequestException
  | JSONDecodeError

text \<open>The two messages of \<^verbatim>\<open>ValueError\<close> that can arise (the second is followed, in Python, by the string).\<close>

definition empty_max :: string where
  "empty_max = ''max() arg is an empty sequence''"

definition invalid_isoformat :: string where
  "invalid_isoformat = ''Invalid isoformat string''"

datatype event = Stdout string | Stderr string

datatype pyval = PNone | PBool bool | PInt int | PStr string

type_synonym pydict = "(string \<times> pyval) list"

subsection \<open>String methods\<close>

text \<open>\<^verbatim>\<open>str.isspace\<close> on one character (code points below U+0100).\<close>

definition py_isspace :: "char \<Rightarrow> bool" where
  "py_isspace c =
     (let n = (of_char c :: nat)
      in (9 \<le> n \<and> n \<le> 13) \<or> (28 \<le> n \<and> n \<le> 32) \<or> n = 133 \<or> n = 160)"

text \<open>\<^verbatim>\<open>s.strip()\<close>: leading and trailing whitespace removed.\<close>

definition py_strip :: "string \<Rightarrow> string" where
  "py_strip s = rev (dropWhile py_isspace (rev (dropWhile py_isspace s)))"

text \<open>\<^verbatim>\<open>str.isupper\<close> and \<^verbatim>\<open>str.lower\<close> on one character.\<close>

definition py_isupper :: "char \<Rightarrow> bool" where
  "py_isupper c =
     (let n = (of_char c :: nat)
      in (65 \<le> n \<and> n \<le> 90) \<or> (192 \<le> n \<and> n \<le> 214) \<or> (216 \<le> n \<and> n \<le> 222))"

definition py_lower_char :: "char \<Rightarrow> char" where
  "py_lower_char c = (if py_isupper c then char_of ((of_char c :: nat) + 32) else c)"

definition py_lower :: "string \<Rightarrow> string" where
  "py_lower s = map py_lower_char s"

text \<open>\<^verbatim>\<open>s.rstrip("Z")\<close>: every trailing \<open>Z\<close> removed.\<close>

definition rstrip_Z :: "string \<Rightarrow> string" where
  "rstrip_Z s = rev (dropWhile (\<lambda>c. c = CHR ''Z'') (rev s))"

text \<open>\<^verbatim>\<open>str(n)\<close> for an integer: decimal digits, a minus sign when negative.\<close>

definition digit_char :: "nat \<Rightarrow> char" where
  "digit_char d = ''0123456789'' ! d"

function str_nat :: "nat \<Rightarrow> string" where
  "str_nat n = (if n < 10 then [digit_char n] else str_nat (n div 10) @ [digit_char (n mod 10)])"
  by pat_completeness auto
termination
  by (relation "measure id") auto

declare str_nat.simps [simp del]

definition str_int :: "int \<Rightarrow> string" where
  "str_int i = (if i < 0 then CHR ''-'' # str_nat (nat (- i)) else str_nat (nat i))"

text \<open>\<^verbatim>\<open>str(v)\<close>, which is what \<^verbatim>\<open>str.format\<close> and an f-string insert for a field.\<close>

fun py_str :: "pyval \<Rightarrow> string" where
  "py_str PNone = ''None''"
| "py_str (PBool b) = (if b then ''True'' else ''False'')"
| "py_str (PInt i) = str_int i"
| "py_str (PStr s) = s"

text \<open>\<^verbatim>\<open>d[k]\<close> on a dictionary: the value, or \<^verbatim>\<open>KeyError\<close>.\<close>

definition getitem :: "pydict \<Rightarrow> string \<Rightarrow> py_error + pyval" where
  "getitem d k = (case map_of d k of None \<Rightarrow> Inl KeyError | Some v \<Rightarrow> Inr v)"

section \<open>The roster reader\<close>

subsection \<open>The csv reader (excel dialect, tab delimiter)\<close>

text \<open>
  \<^verbatim>\<open>csv.reader(file, delimiter="\t")\<close> with the other parameters of the default dialect:
  quote character \<open>"\<close>, doubled quotes inside a quoted field, no escape character, not
  strict.  The reader is fed one line of the file at a time, each character in turn and
  then an end-of-line signal (\<open>None\<close> below); a record is complete when the reader is
  back in \<open>START_RECORD\<close>.
\<close>

datatype csv_state =
    START_RECORD | START_FIELD | IN_FIELD | IN_QUOTED_FIELD | QUOTE_IN_QUOTED_FIELD | EAT_CRNL

record reader =
  state :: csv_state
  rfields :: "string list"
  rfield :: string

definition parse_reset :: reader where
  "parse_reset = \<lparr>state = START_RECORD, rfields = [], rfield = []\<rparr>"

definition parse_save_field :: "reader \<Rightarrow> reader" where
  "parse_save_field r = r\<lparr>rfields := rfields r @ [rfield r], rfield := []\<rparr>"

text \<open>
  A field holds at most \<^verbatim>\<open>csv.field_size_limit()\<close> characters; adding one more is an
  error of the reader.
\<close>

definition field_limit :: nat where
  "field_limit = 131072"

definition parse_add_char :: "reader \<Rightarrow> char \<Rightarrow> py_error + reader" where
  "parse_add_char r c =
     (if field_limit \<le> length (rfield r) then Inl CsvError
      else Inr (r\<lparr>rfield := rfield r @ [c]\<rparr>))"

text \<open>The character is added and, if that went well, the reader moves to state \<open>s\<close>.\<close>

definition add_char_then :: "reader \<Rightarrow> char \<Rightarrow> csv_state \<Rightarrow> py_error + reader" where
  "add_char_then r c s =
     (case parse_add_char r c of Inl e \<Rightarrow> Inl e | Inr r' \<Rightarrow> Inr (r'\<lparr>state := s\<rparr>))"

definition is_nl :: "char \<Rightarrow> bool" where
  "is_nl c = (c = CHR 0x0A \<or> c = CHR 0x0D)"

definition delimiter :: char where
  "delimiter = CHR 0x09"

definition quotechar :: char where
  "quotechar = CHR 0x22"

text \<open>The cases of \<open>START_FIELD\<close>, which \<open>START_RECORD\<close> falls through to.\<close>

definition start_field :: "reader \<Rightarrow> char option \<Rightarrow> py_error + reader" where
  "start_field r c =
     (case c of
        None \<Rightarrow> Inr ((parse_save_field r)\<lparr>state := START_RECORD\<rparr>)
      | Some x \<Rightarrow>
          if is_nl x then Inr ((parse_save_field r)\<lparr>state := EAT_CRNL\<rparr>)
          else if x = quotechar then Inr (r\<lparr>state := IN_QUOTED_FIELD\<rparr>)
          else if x = delimiter then Inr ((parse_save_field r)\<lparr>state := START_FIELD\<rparr>)
          else add_char_then r x IN_FIELD)"

fun parse_process_char :: "reader \<Rightarrow> char option \<Rightarrow> py_error + reader" where
  "parse_process_char r c =
     (case state r of
        START_RECORD \<Rightarrow>
          (case c of
             None \<Rightarrow> Inr r
           | Some x \<Rightarrow>
               if is_nl x then Inr (r\<lparr>state := EAT_CRNL\<rparr>) else start_field r c)
      | START_FIELD \<Rightarrow> start_field r c
      | IN_FIELD \<Rightarrow>
          (case c of
             None \<Rightarrow> Inr ((parse_save_field r)\<lparr>state := START_RECORD\<rparr>)
           | Some x \<Rightarrow>
               if is_nl x then Inr ((parse_save_field r)\<lparr>state := EAT_CRNL\<rparr>)
               else if x = delimiter then Inr ((parse_save_field r)\<lparr>state := START_FIELD\<rparr>)
               else parse_add_char r x)
      | IN_QUOTED_FIELD \<Rightarrow>
          (case c of
             None \<Rightarrow> Inr r
           | Some x \<Rightarrow>
               if x = quotechar then Inr (r\<lparr>state := QUOTE_IN_QUOTED_FIELD\<rparr>)
               else parse_add_char r x)
      | QUOTE_IN_QUOTED_FIELD \<Rightarrow>
          (case c of
             None \<Rightarrow> Inr ((parse_save_field r)\<lparr>state := START_RECORD\<rparr>)
           | Some x \<Rightarrow>
               if x = quotechar then add_char_then r x IN_QUOTED_FIELD
               else if x = delimiter then Inr ((parse_save_field r)\<lparr>state := START_FIELD\<rparr>)
               else if is_nl x then Inr ((parse_save_field r)\<lparr>state := EAT_CRNL\<rparr>)
               else add_char_then r x IN_FIELD)
      | EAT_CRNL \<Rightarrow>
          (case c of
             None \<Rightarrow> Inr (r\<lparr>state := START_RECORD\<rparr>)
           | Some x \<Rightarrow> if is_nl x then Inr r else Inl CsvError))"

text \<open>The characters of one line, in order.\<close>

fun feed_chars :: "reader \<Rightarrow> string \<Rightarrow> py_error + reader" where
  "feed_chars r [] = Inr r"
| "feed_chars r (c # cs) =
     (case parse_process_char r (Some c) of
        Inl e \<Rightarrow> Inl e
      | Inr r' \<Rightarrow> feed_chars r' cs)"

text \<open>One line: its characters, then the end-of-line signal.\<close>

definition feed_line :: "reader \<Rightarrow> string \<Rightarrow> py_error + reader" where
  "feed_line r l =
     (case feed_chars r l of
        Inl e \<Rightarrow> Inl e
      | Inr r' \<Rightarrow> parse_process_char r' None)"

subsection \<open>\<^verbatim>\<open>read_student_data\<close>\<close>

record student =
  first_name :: string
  last_name :: string
  email :: string

text \<open>
  \<^verbatim>\<open>csv.DictReader\<close> with four field names pairs the names with the fields of a row by
  position; a name beyond the end of the row gets \<^verbatim>\<open>None\<close>, and fields beyond the
  fourth are collected under another key.  The value of column \<open>i\<close>:
\<close>

definition column :: "string list \<Rightarrow> nat \<Rightarrow> string option" where
  "column row i = (if i < length row then Some (row ! i) else None)"

text \<open>\<^verbatim>\<open>row[name].strip()\<close>: \<^verbatim>\<open>None\<close> has no method \<^verbatim>\<open>strip\<close>.\<close>

definition strip_column :: "string list \<Rightarrow> nat \<Rightarrow> py_error + string" where
  "strip_column row i = (case column row i of None \<Rightarrow> Inl AttributeError | Some s \<Rightarrow> Inr (py_strip s))"

text \<open>The body of the loop over the rows: the dictionary appended for one row.\<close>

definition student_of_row :: "string list \<Rightarrow> py_error + student" where
  "student_of_row row =
     (case strip_column row 0 of
        Inl e \<Rightarrow> Inl e
      | Inr f \<Rightarrow>
          (case strip_column row 1 of
             Inl e \<Rightarrow> Inl e
           | Inr l \<Rightarrow>
               (case strip_column row 3 of
                  Inl e \<Rightarrow> Inl e
                | Inr m \<Rightarrow> Inr \<lparr>first_name = f, last_name = l, email = py_lower m\<rparr>)))"

text \<open>
  A complete row reaches the loop body unless it is empty: \<^verbatim>\<open>DictReader\<close> skips the
  rows that are \<open>[]\<close> (blank lines).
\<close>

definition append_row :: "student list \<Rightarrow> string list \<Rightarrow> py_error + student list" where
  "append_row student_data row =
     (if row = [] then Inr student_data
      else (case student_of_row row of
              Inl e \<Rightarrow> Inl e
            | Inr s \<Rightarrow> Inr (student_data @ [s])))"

text \<open>
  The loop \<^verbatim>\<open>for row in reader\<close>, over the lines that remain in the file.  The reader
  carries an unfinished record (an open quoted field) to the next line; when the lines
  are exhausted, an unfinished record with text in its field or an open quote is
  delivered as a last row.
\<close>

fun read_rows :: "reader \<Rightarrow> string list \<Rightarrow> student list \<Rightarrow> py_error + student list" where
  "read_rows r [] student_data =
     (if rfield r \<noteq> [] \<or> state r = IN_QUOTED_FIELD
      then append_row student_data (rfields (parse_save_field r))
      else Inr student_data)"
| "read_rows r (l # ls) student_data =
     (case feed_line r l of
        Inl e \<Rightarrow> Inl e
      | Inr r' \<Rightarrow>
          if state r' = START_RECORD
          then (case append_row student_data (rfields r') of
                  Inl e \<Rightarrow> Inl e
                | Inr student_data' \<Rightarrow> read_rows parse_reset ls student_data')
          else read_rows r' ls student_data)"

text \<open>
  What \<^verbatim>\<open>open(file_path)\<close> finds: no file, a file that cannot be opened, or a text file,
  given as the lines that iterating over it yields (each with its line ending).
\<close>

datatype text_file = Missing | Unreadable | Lines "string list"

definition read_student_data :: "(string \<Rightarrow> text_file) \<Rightarrow> string \<Rightarrow> event list \<times> (py_error + student list)" where
  "read_student_data fs file_path =
     (case fs file_path of
        Missing \<Rightarrow> ([Stdout (''Error: The file '' @ file_path @ '' was not found.'')], Inr [])
      | Unreadable \<Rightarrow> ([], Inl OSError)
      | Lines ls \<Rightarrow> ([], read_rows parse_reset ls []))"

section \<open>Timestamps\<close>

subsection \<open>\<^verbatim>\<open>datetime\<close> values\<close>

text \<open>
  A \<^verbatim>\<open>datetime\<close> object: the calendar fields, and the offset from UTC in microseconds
  when the object carries a time zone (\<open>None\<close> for a naive object).
\<close>

record datetime =
  year :: nat
  month :: nat
  day :: nat
  hour :: nat
  minute :: nat
  second :: nat
  microsecond :: nat
  tzinfo :: "int option"

definition is_leap :: "nat \<Rightarrow> bool" where
  "is_leap y = (y mod 4 = 0 \<and> (y mod 100 \<noteq> 0 \<or> y mod 400 = 0))"

definition days_in_month :: "nat \<Rightarrow> nat \<Rightarrow> nat" where
  "days_in_month y m =
     (if m = 2 \<and> is_leap y then 29 else [0, 31, 28, 31, 30, 31, 30, 31, 31, 30, 31, 30, 31] ! m)"

text \<open>
  The range checks of the \<^verbatim>\<open>timezone\<close> and \<^verbatim>\<open>datetime\<close> constructors, in the order in which
  \<^verbatim>\<open>fromisoformat\<close> meets them: the offset first, then the fields from the year down.
  The result is the message of the \<^verbatim>\<open>ValueError\<close> raised, if any.  (Python ends the
  message about the offset with the offending value.)
\<close>

definition offset_out_of_range :: string where
  "offset_out_of_range =
     ''offset must be a timedelta strictly between -timedelta(hours=24) and timedelta(hours=24)''"

definition field_error :: "datetime \<Rightarrow> string option" where
  "field_error d =
     (if (case tzinfo d of None \<Rightarrow> False | Some off \<Rightarrow> off \<le> - 86400000000 \<or> 86400000000 \<le> off)
      then Some offset_out_of_range
      else if year d < 1 \<or> 9999 < year d then Some (''year '' @ str_nat (year d) @ '' is out of range'')
      else if month d < 1 \<or> 12 < month d then Some ''month must be in 1..12''
      else if day d < 1 \<or> days_in_month (year d) (month d) < day d
      then Some ''day is out of range for month''
      else if 23 < hour d then Some ''hour must be in 0..23''
      else if 59 < minute d then Some ''minute must be in 0..59''
      else if 59 < second d then Some ''second must be in 0..59''
      else if 999999 < microsecond d then Some ''microsecond must be in 0..999999''
      else None)"

subsection \<open>\<^verbatim>\<open>datetime.fromisoformat\<close>\<close>

text \<open>
  The strings that \<^verbatim>\<open>datetime.fromisoformat\<close> is documented to read, those that
  \<^verbatim>\<open>isoformat()\<close> writes: \<^verbatim>\<open>YYYY-MM-DD[*HH[:MM[:SS[.fff[fff]]]][+HH:MM[:SS[.ffffff]]]]\<close>, where
  \<^verbatim>\<open>*\<close> is any one character and the sign of the offset is \<^verbatim>\<open>+\<close> or \<^verbatim>\<open>-\<close>.  Any other
  string is answered with \<^verbatim>\<open>ValueError\<close> ("Invalid isoformat string"), among them a
  date followed by a separator and nothing else; a field or an offset out of range is
  answered with the \<^verbatim>\<open>ValueError\<close> of the constructor that rejects it.
\<close>

definition digit_of :: "char \<Rightarrow> nat option" where
  "digit_of c =
     (let n = (of_char c :: nat) in if 48 \<le> n \<and> n \<le> 57 then Some (n - 48) else None)"

fun digits_val :: "nat \<Rightarrow> string \<Rightarrow> nat option" where
  "digits_val acc [] = Some acc"
| "digits_val acc (c # cs) =
     (case digit_of c of None \<Rightarrow> None | Some d \<Rightarrow> digits_val (10 * acc + d) cs)"

text \<open>Exactly \<open>n\<close> decimal digits.\<close>

definition parse_digits :: "nat \<Rightarrow> string \<Rightarrow> nat option" where
  "parse_digits n s = (if length s = n then digits_val 0 s else None)"

definition parse_isoformat_date :: "string \<Rightarrow> (nat \<times> nat \<times> nat) option" where
  "parse_isoformat_date dtstr =
     (if length dtstr \<noteq> 10 \<or> dtstr ! 4 \<noteq> CHR ''-'' \<or> dtstr ! 7 \<noteq> CHR ''-'' then None
      else (case parse_digits 4 (take 4 dtstr) of
              None \<Rightarrow> None
            | Some y \<Rightarrow>
                (case parse_digits 2 (take 2 (drop 5 dtstr)) of
                   None \<Rightarrow> None
                 | Some m \<Rightarrow>
                     (case parse_digits 2 (drop 8 dtstr) of
                        None \<Rightarrow> None
                      | Some d \<Rightarrow> Some (y, m, d)))))"

text \<open>The fraction after the seconds: nothing, or a point and three or six digits.\<close>

definition parse_fraction :: "string \<Rightarrow> nat option" where
  "parse_fraction s =
     (case s of
        [] \<Rightarrow> Some 0
      | c # ds \<Rightarrow>
          if c \<noteq> CHR ''.'' then None
          else if length ds = 3 then map_option (\<lambda>n. n * 1000) (digits_val 0 ds)
          else if length ds = 6 then digits_val 0 ds
          else None)"

text \<open>\<^verbatim>\<open>HH[:MM[:SS[.fff[fff]]]]\<close>\<close>

definition parse_hh_mm_ss_ff :: "string \<Rightarrow> (nat \<times> nat \<times> nat \<times> nat) option" where
  "parse_hh_mm_ss_ff tstr =
     (case parse_digits 2 (take 2 tstr) of
        None \<Rightarrow> None
      | Some hh \<Rightarrow>
          if drop 2 tstr = [] then Some (hh, 0, 0, 0)
          else if tstr ! 2 \<noteq> CHR '':'' then None
          else (case parse_digits 2 (take 2 (drop 3 tstr)) of
                  None \<Rightarrow> None
                | Some mm \<Rightarrow>
                    if drop 5 tstr = [] then Some (hh, mm, 0, 0)
                    else if tstr ! 5 \<noteq> CHR '':'' then None
                    else (case parse_digits 2 (take 2 (drop 6 tstr)) of
                            None \<Rightarrow> None
                          | Some ss \<Rightarrow>
                              (case parse_fraction (drop 8 tstr) of
                                 None \<Rightarrow> None
                               | Some ff \<Rightarrow> Some (hh, mm, ss, ff)))))"

definition is_sign :: "char \<Rightarrow> bool" where
  "is_sign c = (c = CHR ''+'' \<or> c = CHR ''-'')"

text \<open>
  The time of day and the offset.  The offset starts at the first sign; it is
  \<^verbatim>\<open>HH:MM\<close>, \<^verbatim>\<open>HH:MM:SS\<close> or \<^verbatim>\<open>HH:MM:SS.ffffff\<close>.
\<close>

definition parse_isoformat_time :: "string \<Rightarrow> ((nat \<times> nat \<times> nat \<times> nat) \<times> int option) option" where
  "parse_isoformat_time tstr =
     (let timestr = takeWhile (\<lambda>c. \<not> is_sign c) tstr;
          rest = dropWhile (\<lambda>c. \<not> is_sign c) tstr
      in case parse_hh_mm_ss_ff timestr of
           None \<Rightarrow> None
         | Some t \<Rightarrow>
             (case rest of
                [] \<Rightarrow> Some (t, None)
              | sg # tzstr \<Rightarrow>
                  if length tzstr \<noteq> 5 \<and> length tzstr \<noteq> 8 \<and> length tzstr \<noteq> 15 then None
                  else (case parse_hh_mm_ss_ff tzstr of
                          None \<Rightarrow> None
                        | Some (h, m, s, f) \<Rightarrow>
                            Some (t, Some ((if sg = CHR ''-'' then - 1 else 1) *
                                           int ((h * 3600 + m * 60 + s) * 1000000 + f))))))"

definition fromisoformat :: "string \<Rightarrow> py_error + datetime" where
  "fromisoformat date_string =
     (case parse_isoformat_date (take 10 date_string) of
        None \<Rightarrow> Inl (ValueError invalid_isoformat)
      | Some (y, m, d) \<Rightarrow>
          (case (if length date_string \<le> 10 then Some ((0, 0, 0, 0), None)
                 else parse_isoformat_time (drop 11 date_string)) of
             None \<Rightarrow> Inl (ValueError invalid_isoformat)
           | Some ((hh, mm, ss, ff), tz) \<Rightarrow>
               (let dt = \<lparr>year = y, month = m, day = d, hour = hh, minute = mm, second = ss,
                          microsecond = ff, tzinfo = tz\<rparr>
                in case field_error dt of None \<Rightarrow> Inr dt | Some msg \<Rightarrow> Inl (ValueError msg))))"

subsection \<open>\<^verbatim>\<open>parse_iso_datetime\<close>\<close>

text \<open>
  \<^verbatim>\<open>datetime.fromisoformat(iso_string.rstrip("Z")).replace(tzinfo=timezone.utc)\<close>.
  The argument is the value of a JSON field; only a string has the method
  \<^verbatim>\<open>rstrip\<close>.  \<^verbatim>\<open>replace\<close> stores the new time zone and leaves the other fields as they
  are.
\<close>

definition utc :: "int option" where
  "utc = Some 0"

fun parse_iso_datetime :: "pyval \<Rightarrow> py_error + datetime" where
  "parse_iso_datetime (PStr iso_string) =
     (case fromisoformat (rstrip_Z iso_string) of
        Inl e \<Rightarrow> Inl e
      | Inr dt \<Rightarrow> Inr (dt\<lparr>tzinfo := utc\<rparr>))"
| "parse_iso_datetime v = Inl AttributeError"

text \<open>
  Two \<^verbatim>\<open>datetime\<close> objects that carry the same time zone object are compared field by
  field, from the year down to the microsecond.  Every value that \<open>parse_iso_datetime\<close>
  returns carries \<^verbatim>\<open>timezone.utc\<close>, so this tuple, in its lexicographic order, is what
  \<^verbatim>\<open>max\<close> compares.
\<close>

type_synonym dt_key = "nat \<times> nat \<times> nat \<times> nat \<times> nat \<times> nat \<times> nat"

definition dt_fields :: "datetime \<Rightarrow> dt_key" where
  "dt_fields d = (year d, month d, day d, hour d, minute d, second d, microsecond d)"

section \<open>Selecting the submission\<close>

text \<open>
  \<^verbatim>\<open>max(iterable, key=f)\<close>: \<^verbatim>\<open>ValueError\<close> on an empty iterable; otherwise the key of
  each item is computed in turn, and an item replaces the best one so far only when its
  key is strictly greater.  An exception raised by the key function ends the call.
\<close>

fun max_loop :: "('a \<Rightarrow> py_error + 'k::linorder) \<Rightarrow> 'a \<Rightarrow> 'k \<Rightarrow> 'a list \<Rightarrow> py_error + 'a" where
  "max_loop f maxitem maxval [] = Inr maxitem"
| "max_loop f maxitem maxval (item # items) =
     (case f item of
        Inl e \<Rightarrow> Inl e
      | Inr val \<Rightarrow>
          if val > maxval then max_loop f item val items
          else max_loop f maxitem maxval items)"

fun py_max :: "('a \<Rightarrow> py_error + 'k::linorder) \<Rightarrow> 'a list \<Rightarrow> py_error + 'a" where
  "py_max f [] = Inl (ValueError empty_max)"
| "py_max f (item # items) =
     (case f item of
        Inl e \<Rightarrow> Inl e
      | Inr val \<Rightarrow> max_loop f item val items)"

text \<open>The key function \<^verbatim>\<open>lambda s: parse_iso_datetime(s["created_at"])\<close>.\<close>

definition created_key :: "pydict \<Rightarrow> py_error + dt_key" where
  "created_key s =
     (case getitem s ''created_at'' of
        Inl e \<Rightarrow> Inl e
      | Inr v \<Rightarrow>
          (case parse_iso_datetime v of
             Inl e \<Rightarrow> Inl e
           | Inr dt \<Rightarrow> Inr (dt_fields dt)))"

definition find_accepted_submission :: "pydict list \<Rightarrow> py_error + pydict" where
  "find_accepted_submission submissions = py_max created_key submissions"

section \<open>The remote service\<close>

text \<open>
  What \<^verbatim>\<open>requests.get(url, headers=AUTH_HEADER)\<close> meets: no response (the call raises), or
  a response with a status code and a body.  The body is \<open>None\<close> when it is not JSON
  (\<^verbatim>\<open>response.json()\<close> raises); otherwise it is a JSON object whose members are lists of
  objects, as the two endpoints deliver.
\<close>

type_synonym json_body = "(string \<times> pydict list) list"

datatype http_reply = NoReply | Reply int "json_body option"

definition API_ID :: int where
  "API_ID = 134120"

definition SLIDE_ID :: int where
  "SLIDE_ID = 414786"

definition STUDENTS_FILE :: string where
  "STUDENTS_FILE = ''students.txt''"

definition USERS_API_URL :: string where
  "USERS_API_URL = ''https://edstem.org/api/challenges/'' @ str_int API_ID @ ''/users''"

definition SUBMISSIONS_API_URL_TEMPLATE :: "pyval \<Rightarrow> string" where
  "SUBMISSIONS_API_URL_TEMPLATE student_id =
     ''https://edstem.org/api/users/'' @ py_str student_id @ ''/challenges/'' @ str_int API_ID @
     ''/submissions''"

definition SUBMISSION_URL_TEMPLATE :: "pyval \<Rightarrow> pyval \<Rightarrow> string" where
  "SUBMISSION_URL_TEMPLATE student_id submission_id =
     ''https://edstem.org/au/courses/18651/lessons/61238/slides/'' @ str_int SLIDE_ID @
     ''/submissions?u='' @ py_str student_id @ ''&s='' @ py_str submission_id"

definition MISSING_EMAIL_URL_TEMPLATE :: "string \<Rightarrow> string" where
  "MISSING_EMAIL_URL_TEMPLATE query =
     ''https://edstem.org/au/courses/18651/lessons/61238/slides/'' @ str_int SLIDE_ID @
     ''/submissions?q='' @ query"

text \<open>\<^verbatim>\<open>response.json().get(key, [])\<close>\<close>

definition json_get :: "json_body \<Rightarrow> string \<Rightarrow> pydict list" where
  "json_get body k = (case map_of body k of None \<Rightarrow> [] | Some v \<Rightarrow> v)"

definition fetch_users :: "(string \<Rightarrow> http_reply) \<Rightarrow> event list \<times> (py_error + pydict list)" where
  "fetch_users http_get =
     (case http_get USERS_API_URL of
        NoReply \<Rightarrow> ([], Inl RequestException)
      | Reply status_code body \<Rightarrow>
          if status_code = 200
          then (case body of
                  None \<Rightarrow> ([], Inl JSONDecodeError)
                | Some b \<Rightarrow> ([], Inr (json_get b ''users'')))
          else ([Stderr (''Failed to fetch users. Status code: '' @ str_int status_code)], Inr []))"

definition fetch_submissions ::
  "(string \<Rightarrow> http_reply) \<Rightarrow> pyval \<Rightarrow> event list \<times> (py_error + pydict list)" where
  "fetch_submissions http_get student_id =
     (case http_get (SUBMISSIONS_API_URL_TEMPLATE student_id) of
        NoReply \<Rightarrow> ([], Inl RequestException)
      | Reply status_code body \<Rightarrow>
          if status_code = 200
          then (case body of
                  None \<Rightarrow> ([], Inl JSONDecodeError)
                | Some b \<Rightarrow> ([], Inr (json_get b ''submissions'')))
          else ([Stderr (''Failed to fetch submissions for student ID '' @ py_str student_id @
                         ''. Status code: '' @ str_int status_code)], Inr []))"

section \<open>The main program\<close>

text \<open>\<^verbatim>\<open>str(d)\<close> for a \<^verbatim>\<open>datetime\<close>: \<^verbatim>\<open>d.isoformat(sep=' ')\<close>.\<close>

definition zero_pad :: "nat \<Rightarrow> nat \<Rightarrow> string" where
  "zero_pad w n = replicate (w - length (str_nat n)) CHR ''0'' @ str_nat n"

definition format_offset :: "int \<Rightarrow> string" where
  "format_offset off =
     (let a = nat \<bar>off\<bar>;
          secs = a div 1000000;
          us = a mod 1000000
      in (if off < 0 then ''-'' else ''+'') @
         zero_pad 2 (secs div 3600) @ '':'' @ zero_pad 2 (secs mod 3600 div 60) @
         (if secs mod 60 \<noteq> 0 \<or> us \<noteq> 0 then '':'' @ zero_pad 2 (secs mod 60) else []) @
         (if us \<noteq> 0 then ''.'' @ zero_pad 6 us else []))"

definition str_datetime :: "datetime \<Rightarrow> string" where
  "str_datetime d =
     zero_pad 4 (year d) @ ''-'' @ zero_pad 2 (month d) @ ''-'' @ zero_pad 2 (day d) @ '' '' @
     zero_pad 2 (hour d) @ '':'' @ zero_pad 2 (minute d) @ '':'' @ zero_pad 2 (second d) @
     (if microsecond d \<noteq> 0 then ''.'' @ zero_pad 6 (microsecond d) else []) @
     (case tzinfo d of None \<Rightarrow> [] | Some off \<Rightarrow> format_offset off)"

text \<open>
  The dictionary comprehension \<^verbatim>\<open>{user["email"]: user["id"] for user in users}\<close>: the
  users in order, a later user replacing an earlier one with the same email.  The
  dictionary is only ever asked for roster emails, which are strings, so an entry under
  a key that is not a string is never found and is left out.
\<close>

fun user_dict_of :: "(string \<rightharpoonup> pyval) \<Rightarrow> pydict list \<Rightarrow> py_error + (string \<rightharpoonup> pyval)" where
  "user_dict_of m [] = Inr m"
| "user_dict_of m (user # users) =
     (case getitem user ''email'' of
        Inl e \<Rightarrow> Inl e
      | Inr k \<Rightarrow>
          (case getitem user ''id'' of
             Inl e \<Rightarrow> Inl e
           | Inr v \<Rightarrow> user_dict_of (case k of PStr s \<Rightarrow> m(s \<mapsto> v) | _ \<Rightarrow> m) users))"

text \<open>
  The environment of a run: the file system, the remote service, and the clock read by
  \<^verbatim>\<open>datetime.now()\<close>.  The pause of 0.2 seconds after each fetch is not part of the model.
\<close>

record env =
  fs :: "string \<Rightarrow> text_file"
  http_get :: "string \<Rightarrow> http_reply"
  now :: datetime

text \<open>
  The body of the loop over the students, for one student.  The result is what was
  written, and the exception that ended the run if there was one.  A dictionary is true
  when it is not empty.
\<close>

definition process_student ::
  "(string \<Rightarrow> http_reply) \<Rightarrow> datetime \<Rightarrow> (string \<rightharpoonup> pyval) \<Rightarrow> student \<Rightarrow> event list \<times> py_error option" where
  "process_student get current_datetime user_dict student =
     (case user_dict (email student) of
        Some student_id \<Rightarrow>
          (case fetch_submissions get student_id of
             (ev, Inl e) \<Rightarrow> (ev, Some e)
           | (ev, Inr submissions) \<Rightarrow>
               if submissions = []
               then (ev @ [Stdout (''No submissions found, as of '' @ str_datetime current_datetime)], None)
               else (case find_accepted_submission submissions of
                       Inl e \<Rightarrow> (ev, Some e)
                     | Inr latest_submission \<Rightarrow>
                         if latest_submission \<noteq> []
                         then (case getitem latest_submission ''id'' of
                                 Inl e \<Rightarrow> (ev, Some e)
                               | Inr submission_id \<Rightarrow>
                                   (ev @ [Stdout (SUBMISSION_URL_TEMPLATE student_id submission_id)], None))
                         else (ev @ [Stdout ''LATE - No valid submissions before cutoff datetime''], None)))
      | None \<Rightarrow>
          ([Stdout (MISSING_EMAIL_URL_TEMPLATE (first_name student @ ''%20'' @ last_name student))], None))"

fun main_loop ::
  "(string \<Rightarrow> http_reply) \<Rightarrow> datetime \<Rightarrow> (string \<rightharpoonup> pyval) \<Rightarrow> student list \<Rightarrow> event list \<times> py_error option" where
  "main_loop get current_datetime user_dict [] = ([], None)"
| "main_loop get current_datetime user_dict (student # students) =
     (case process_student get current_datetime user_dict student of
        (ev, Some e) \<Rightarrow> (ev, Some e)
      | (ev, None) \<Rightarrow>
          (case main_loop get current_datetime user_dict students of
             (ev', r) \<Rightarrow> (ev @ ev', r)))"

definition main :: "env \<Rightarrow> event list \<times> py_error option" where
  "main E =
     (case read_student_data (fs E) STUDENTS_FILE of
        (ev1, Inl e) \<Rightarrow> (ev1, Some e)
      | (ev1, Inr students) \<Rightarrow>
          if students = [] then (ev1 @ [Stdout ''No student data found. Exiting.''], None)
          else (case fetch_users (http_get E) of
                  (ev2, Inl e) \<Rightarrow> (ev1 @ ev2, Some e)
                | (ev2, Inr users) \<Rightarrow>
                    if users = [] then (ev1 @ ev2 @ [Stdout ''No users fetched from API. Exiting.''], None)
                    else (case user_dict_of Map.empty users of
                            Inl e \<Rightarrow> (ev1 @ ev2, Some e)
                          | Inr user_dict \<Rightarrow>
                              (case main_loop (http_get E) (now E) user_dict students of
                                 (ev3, r) \<Rightarrow> (ev1 @ ev2 @ ev3, r)))))"

text \<open>What a run wrote to standard output, line by line.\<close>

fun stdout_lines :: "event list \<Rightarrow> string list" where
  "stdout_lines [] = []"
| "stdout_lines (Stdout l # evs) = l # stdout_lines evs"
| "stdout_lines (Stderr l # evs) = stdout_lines evs"

section \<open>Notions of the specification\<close>

subsection \<open>The instant an ISO-8601 timestamp denotes\<close>

text \<open>
  The specification orders submissions by their \<^verbatim>\<open>created_at\<close> "parsed as ISO-8601,
  trailing Z treated as UTC".  An ISO-8601 timestamp with an offset \<^verbatim>\<open>+HH:MM\<close> denotes the
  instant that many hours and minutes before the same reading in UTC.  The instant is
  counted here in microseconds from the start of year 1, with the day number computed
  as the \<^verbatim>\<open>datetime\<close> module does (\<^verbatim>\<open>_ymd2ord\<close>).
\<close>

definition days_before_year :: "nat \<Rightarrow> int" where
  "days_before_year y =
     (let p = int y - 1 in p * 365 + p div 4 - p div 100 + p div 400)"

definition days_before_month :: "nat \<Rightarrow> nat \<Rightarrow> int" where
  "days_before_month y m =
     [0, 0, 31, 59, 90, 120, 151, 181, 212, 243, 273, 304, 334] ! m +
     (if m > 2 \<and> is_leap y then 1 else 0)"

definition ymd2ord :: "nat \<Rightarrow> nat \<Rightarrow> nat \<Rightarrow> int" where
  "ymd2ord y m d = days_before_year y + days_before_month y m + int d"

definition utc_instant :: "datetime \<Rightarrow> int" where
  "utc_instant d =
     (((ymd2ord (year d) (month d) (day d) * 24 + int (hour d)) * 60 + int (minute d)) * 60 +
        int (second d)) * 1000000 + int (microsecond d) -
     (case tzinfo d of None \<Rightarrow> 0 | Some off \<Rightarrow> off)"

definition iso8601_instant :: "string \<Rightarrow> py_error + int" where
  "iso8601_instant iso_string =
     (case fromisoformat (rstrip_Z iso_string) of
        Inl e \<Rightarrow> Inl e
      | Inr dt \<Rightarrow> Inr (utc_instant dt))"

text \<open>The instant that the \<^verbatim>\<open>created_at\<close> of a submission denotes.\<close>

definition submission_instant :: "pydict \<Rightarrow> py_error + int" where
  "submission_instant s =
     (case getitem s ''created_at'' of
        Inl e \<Rightarrow> Inl e
      | Inr (PStr iso_string) \<Rightarrow> iso8601_instant iso_string
      | Inr v \<Rightarrow> Inl AttributeError)"

subsection \<open>URL encoding\<close>

text \<open>
  Percent-encoding of a string for use in a URL: letters, digits and \<^verbatim>\<open>- . _ ~\<close> stand for
  themselves, every other character is written as its UTF-8 bytes, each as \<^verbatim>\<open>%\<close> and
  two hexadecimal digits.
\<close>

definition unreserved :: "char \<Rightarrow> bool" where
  "unreserved c =
     (let n = (of_char c :: nat)
      in (48 \<le> n \<and> n \<le> 57) \<or> (65 \<le> n \<and> n \<le> 90) \<or> (97 \<le> n \<and> n \<le> 122) \<or>
         n = 45 \<or> n = 46 \<or> n = 95 \<or> n = 126)"

definition hex_digit :: "nat \<Rightarrow> char" where
  "hex_digit d = ''0123456789ABCDEF'' ! d"

definition percent_byte :: "nat \<Rightarrow> string" where
  "percent_byte b = [CHR ''%'', hex_digit (b div 16), hex_digit (b mod 16)]"

definition url_encode_char :: "char \<Rightarrow> string" where
  "url_encode_char c =
     (let n = (of_char c :: nat)
      in if unreserved c then [c]
         else if n < 128 then percent_byte n
         else percent_byte (192 + n div 64) @ percent_byte (128 + n mod 64))"

definition url_encode :: "string \<Rightarrow> string" where
  "url_encode s = concat (map url_encode_char s)"

section \<open>Well-formed roster lines and example runs\<close>

text \<open>
  A roster line with four columns: four fields separated by tabs, followed by the line
  ending.  A field is plain when it holds no tab, no line break and no NUL character
  (which the csv module of Python before 3.11 rejects), does not open with the quote
  character, and is within the field size limit; a line ending is made of line breaks
  (it is empty for a last line without one).
\<close>

definition roster_line :: "string \<Rightarrow> string \<Rightarrow> string \<Rightarrow> string \<Rightarrow> string \<Rightarrow> string" where
  "roster_line f1 f2 f3 f4 e = f1 @ delimiter # f2 @ delimiter # f3 @ delimiter # f4 @ e"

definition plain_field :: "string \<Rightarrow> bool" where
  "plain_field f =
     (list_all (\<lambda>c. c \<noteq> delimiter \<and> \<not> is_nl c \<and> c \<noteq> CHR 0x00) f \<and>
      take 1 f \<noteq> [quotechar] \<and> length f \<le> field_limit)"

definition well_formed :: "string \<times> string \<times> string \<times> string \<times> string \<Rightarrow> bool" where
  "well_formed l =
     (case l of (f1, f2, f3, f4, e) \<Rightarrow>
        plain_field f1 \<and> plain_field f2 \<and> plain_field f3 \<and> plain_field f4 \<and> list_all is_nl e)"

definition line_of :: "string \<times> string \<times> string \<times> string \<times> string \<Rightarrow> string" where
  "line_of l = (case l of (f1, f2, f3, f4, e) \<Rightarrow> roster_line f1 f2 f3 f4 e)"

definition record_of :: "string \<times> string \<times> string \<times> string \<times> string \<Rightarrow> student" where
  "record_of l =
     (case l of (f1, f2, f3, f4, e) \<Rightarrow>
        \<lparr>first_name = py_strip f1, last_name = py_strip f2, email = py_lower (py_strip f4)\<rparr>)"

text \<open>A string is trimmed when it neither starts nor ends with whitespace.\<close>

definition trimmed :: "string \<Rightarrow> bool" where
  "trimmed s = (case s of [] \<Rightarrow> True | c # cs \<Rightarrow> \<not> py_isspace c \<and> \<not> py_isspace (last s))"

text \<open>A clock reading, and a remote service that never answers.\<close>

definition example_now :: datetime where
  "example_now =
     \<lparr>year = 2024, month = 5, day = 1, hour = 9, minute = 3, second = 0, microsecond = 120,
      tzinfo = None\<rparr>"

definition no_service :: "string \<Rightarrow> http_reply" where
  "no_service url = NoReply"

text \<open>A run in a directory without the roster file.\<close>

definition env_no_roster :: env where
  "env_no_roster = \<lparr>fs = (\<lambda>p. Missing), http_get = no_service, now = example_now\<rparr>"

text \<open>A roster whose only line has two fields.\<close>

definition short_roster :: "string \<Rightarrow> text_file" where
  "short_roster p = Lines [''ZAKA'' @ [delimiter] @ ''ABBASOV'' @ [CHR 0x0A]]"

text \<open>
  The first two entries of the sample roster in the script, and a directory that knows
  the first of them under the id 7.
\<close>

definition sample_rows :: "(string \<times> string \<times> string \<times> string \<times> string) list" where
  "sample_rows =
     [(''ZAKA'', ''ABBASOV'', ''-'', ''ZABB0738@UNI.SYDNEY.EDU.AU'', [CHR 0x0A]),
      (''KASHYAP KOUTILYA'', ''ADIPUDI'', ''-'', ''KADI0215@UNI.SYDNEY.EDU.AU'', [CHR 0x0A])]"

definition sample_roster :: "string \<Rightarrow> text_file" where
  "sample_roster p = (if p = ''students.txt'' then Lines (map line_of sample_rows) else Missing)"

definition sample_users :: "pydict list" where
  "sample_users = [[(''email'', PStr ''zabb0738@uni.sydney.edu.au''), (''id'', PInt 7)]]"

definition sample_student :: student where
  "sample_student =
     \<lparr>first_name = ''ZAKA'', last_name = ''ABBASOV'', email = ''zabb0738@uni.sydney.edu.au''\<rparr>"

definition sample_user_dict :: "string \<rightharpoonup> pyval" where
  "sample_user_dict = [''zabb0738@uni.sydney.edu.au'' \<mapsto> PInt 7]"

text \<open>
  Two submissions made forty minutes apart in the night in which clocks in Sydney go
  back from UTC+11 to UTC+10: the first at 15:30 UTC, the second at 16:10 UTC.
\<close>

definition early_submission :: pydict where
  "early_submission = [(''id'', PInt 1), (''created_at'', PStr ''2024-04-07T02:30:00+11:00'')]"

definition late_submission :: pydict where
  "late_submission = [(''id'', PInt 2), (''created_at'', PStr ''2024-04-07T02:10:00+10:00'')]"

text \<open>
  Two submissions made at the same instant, 15:30 UTC, written with the offsets of
  Brisbane (UTC+10) and Sydney (UTC+11).
\<close>

definition brisbane_submission :: pydict where
  "brisbane_submission = [(''id'', PInt 1), (''created_at'', PStr ''2024-04-07T01:30:00+10:00'')]"

definition sydney_submission :: pydict where
  "sydney_submission = [(''id'', PInt 2), (''created_at'', PStr ''2024-04-07T02:30:00+11:00'')]"

definition sample_service :: "pydict list \<Rightarrow> string \<Rightarrow> http_reply" where
  "sample_service submissions url =
     (if url = ''https://edstem.org/api/challenges/134120/users''
      then Reply 200 (Some [(''users'', sample_users)])
      else if url = ''https://edstem.org/api/users/7/challenges/134120/submissions''
      then Reply 200 (Some [(''submissions'', submissions)])
      else Reply 404 None)"

definition sample_env :: "pydict list \<Rightarrow> env" where
  "sample_env submissions =
     \<lparr>fs = sample_roster, http_get = sample_service submissions, now = example_now\<rparr>"

definition second_student :: student where
  "second_student =
     \<lparr>first_name = ''KASHYAP KOUTILYA'', last_name = ''ADIPUDI'',
      email = ''kadi0215@uni.sydney.edu.au''\<rparr>"

text \<open>
  Three submissions: one of the first of March, and two of the second of March that
  carry the same timestamp, written with and without the final \<^verbatim>\<open>Z\<close>.
\<close>

definition march_1 :: pydict where
  "march_1 = [(''id'', PInt 3), (''created_at'', PStr ''2024-03-01T10:00:00Z'')]"

definition march_2 :: pydict where
  "march_2 = [(''id'', PInt 1), (''created_at'', PStr ''2024-03-02T09:00:00Z'')]"

definition march_2_again :: pydict where
  "march_2_again = [(''id'', PInt 2), (''created_at'', PStr ''2024-03-02T09:00:00'')]"

text \<open>A service that answers every request with status 503.\<close>

definition failing_service :: "string \<Rightarrow> http_reply" where
  "failing_service url = Reply 503 None"

definition failing_env :: env where
  "failing_env = \<lparr>fs = sample_roster, http_get = failing_service, now = example_now\<rparr>"

section \<open>Evaluating the constants\<close>

lemma str_nat_digit: "n < 10 \<Longrightarrow> str_nat n = [digit_char n]"
  by (subst str_nat.simps) simp

lemma str_nat_step: "10 \<le> n \<Longrightarrow> str_nat n = str_nat (n div 10) @ [digit_char (n mod 10)]"
  by (subst str_nat.simps) simp

lemmas str_nat_eval = str_nat_digit str_nat_step digit_char_def

lemma replicate_eval:
  "replicate 2 c = [c, c]" "replicate 3 c = [c, c, c]" "replicate 4 c = [c, c, c, c]"
  "replicate 5 c = [c, c, c, c, c]"
  by (simp_all add: numeral_eq_Suc)

lemma str_int_API_ID: "str_int API_ID = ''134120''"
  by (simp add: API_ID_def str_int_def str_nat_eval)

lemma str_int_SLIDE_ID: "str_int SLIDE_ID = ''414786''"
  by (simp add: SLIDE_ID_def str_int_def str_nat_eval)

lemma str_int_1: "str_int 1 = ''1''"
  by (simp add: str_int_def str_nat_eval)

lemma str_int_2: "str_int 2 = ''2''"
  by (simp add: str_int_def str_nat_eval)

lemma str_int_7: "str_int 7 = ''7''"
  by (simp add: str_int_def str_nat_eval)

lemma users_url: "USERS_API_URL = ''https://edstem.org/api/challenges/134120/users''"
  by (simp add: USERS_API_URL_def str_int_API_ID)

lemma submissions_url_7:
  "SUBMISSIONS_API_URL_TEMPLATE (PInt 7) =
     ''https://edstem.org/api/users/7/challenges/134120/submissions''"
  by (simp add: SUBMISSIONS_API_URL_TEMPLATE_def str_int_API_ID str_int_7)

lemma submission_url:
  "SUBMISSION_URL_TEMPLATE student_id submission_id =
     ''https://edstem.org/au/courses/18651/lessons/61238/slides/414786/submissions?u='' @
     py_str student_id @ ''&s='' @ py_str submission_id"
  by (simp add: SUBMISSION_URL_TEMPLATE_def str_int_SLIDE_ID)

lemma missing_email_url:
  "MISSING_EMAIL_URL_TEMPLATE query =
     ''https://edstem.org/au/courses/18651/lessons/61238/slides/414786/submissions?q='' @ query"
  by (simp add: MISSING_EMAIL_URL_TEMPLATE_def str_int_SLIDE_ID)

lemma str_example_now: "str_datetime example_now = ''2024-05-01 09:03:00.000120''"
  by (simp add: str_datetime_def example_now_def zero_pad_def str_nat_eval replicate_eval)

section \<open>Exceptions of the selection\<close>

lemma max_loop_error:
  "max_loop f m mv xs = Inl e \<Longrightarrow> \<exists>x\<in>set xs. f x = Inl e"
  by (induction xs arbitrary: m mv) (auto split: sum.splits if_splits)

lemma py_max_error:
  "py_max f xs = Inl e \<Longrightarrow> xs = [] \<and> e = ValueError empty_max \<or> (\<exists>x\<in>set xs. f x = Inl e)"
  by (cases xs) (auto split: sum.splits dest: max_loop_error)

lemma field_error_message: "field_error d = Some msg \<Longrightarrow> msg \<noteq> empty_max"
  by (auto simp: field_error_def empty_max_def offset_out_of_range_def split: if_splits)

lemma messages_differ: "invalid_isoformat \<noteq> empty_max"
  by (simp add: invalid_isoformat_def empty_max_def)

lemma fromisoformat_error:
  "fromisoformat s = Inl e \<Longrightarrow> \<exists>msg. e = ValueError msg \<and> msg \<noteq> empty_max"
  unfolding fromisoformat_def Let_def
  using messages_differ
  by (auto split: option.splits prod.splits if_splits dest: field_error_message)

lemma parse_iso_datetime_error:
  "parse_iso_datetime v = Inl e \<Longrightarrow> e \<noteq> ValueError empty_max"
  by (cases v) (auto split: sum.splits dest: fromisoformat_error)

lemma created_key_error:
  "created_key s = Inl e \<Longrightarrow> e \<noteq> ValueError empty_max"
  by (auto simp: created_key_def getitem_def split: sum.splits option.splits
      dest: parse_iso_datetime_error)

lemma find_accepted_submission_empty_max:
  "find_accepted_submission submissions = Inl (ValueError empty_max) \<Longrightarrow> submissions = []"
  unfolding find_accepted_submission_def
  by (auto dest!: py_max_error created_key_error)

lemma fetch_submissions_error:
  "fetch_submissions get sid = (ev, Inl e) \<Longrightarrow> e = RequestException \<or> e = JSONDecodeError"
  by (auto simp: fetch_submissions_def split: http_reply.splits if_splits option.splits)

lemma process_student_no_empty_max:
  "snd (process_student get current_datetime user_dict student) \<noteq> Some (ValueError empty_max)"
  by (auto simp: process_student_def getitem_def split: option.splits prod.splits sum.splits
      dest: find_accepted_submission_empty_max fetch_submissions_error)

section \<open>The roster reader: a missing file, a short line\<close>

text \<open>
  C3, as the script behaves: when the roster file does not exist, \<open>read_student_data\<close>
  prints that the file was not found and returns the empty list, and the program prints
  that no student data was found and stops.  These two lines on standard output are
  all that the run writes; no request is sent and no line for any student appears.
\<close>

theorem missing_roster_run:
  "fs E STUDENTS_FILE = Missing \<Longrightarrow>
     read_student_data (fs E) STUDENTS_FILE =
       ([Stdout (''Error: The file '' @ STUDENTS_FILE @ '' was not found.'')], Inr []) \<and>
     main E =
       ([Stdout (''Error: The file '' @ STUDENTS_FILE @ '' was not found.''),
         Stdout ''No student data found. Exiting.''], None)"
  by (simp add: main_def read_student_data_def)

theorem missing_roster_run_witness:
  "fs env_no_roster STUDENTS_FILE = Missing \<and>
   read_student_data (fs env_no_roster) STUDENTS_FILE =
     ([Stdout ''Error: The file students.txt was not found.''], Inr []) \<and>
   main env_no_roster =
     ([Stdout ''Error: The file students.txt was not found.'',
       Stdout ''No student data found. Exiting.''], None)"
proof -
  have h: "fs env_no_roster STUDENTS_FILE = Missing"
    by (simp add: env_no_roster_def)
  show ?thesis
    using h missing_roster_run [OF h] by (simp add: STUDENTS_FILE_def)
qed

text \<open>
  The run without a roster file does write to standard output, so it does not stop
  "without producing any output".
\<close>

theorem missing_roster_prints:
  "fs env_no_roster STUDENTS_FILE = Missing \<and> stdout_lines (fst (main env_no_roster)) \<noteq> []"
  by (simp add: main_def read_student_data_def env_no_roster_def)

text \<open>
  A row that is not empty and has fewer than four fields ends the reader with
  \<^verbatim>\<open>AttributeError\<close>: the missing columns are \<^verbatim>\<open>None\<close>, which cannot be stripped.
\<close>

lemma short_row_raises:
  "row \<noteq> [] \<Longrightarrow> length row < 4 \<Longrightarrow> append_row student_data row = Inl AttributeError"
  by (auto simp: append_row_def student_of_row_def strip_column_def column_def split: sum.splits)

text \<open>
  C8: there is a roster line with fewer than four tab-separated fields (here the two
  fields \<^verbatim>\<open>ZAKA\<close> and \<^verbatim>\<open>ABBASOV\<close>) on which \<open>read_student_data\<close> raises an exception
  instead of returning records or reporting failure.
\<close>

theorem read_student_data_short_line:
  "read_student_data short_roster STUDENTS_FILE = ([], Inl AttributeError)"
  by (simp add: read_student_data_def short_roster_def parse_reset_def feed_line_def is_nl_def
      start_field_def delimiter_def quotechar_def add_char_then_def parse_add_char_def
      field_limit_def parse_save_field_def append_row_def student_of_row_def strip_column_def
      column_def)

section \<open>A student without submissions\<close>

text \<open>
  C5: for a student found in the directory whose fetched list of submissions is empty,
  the loop body prints the notice "No submissions found, as of" with the time of the
  run and ends normally; and no run of the loop body, whatever its inputs, ends with
  the \<^verbatim>\<open>ValueError\<close> that \<^verbatim>\<open>max\<close> raises on an empty sequence.
\<close>

theorem no_submissions_notice:
  assumes "user_dict (email student) = Some student_id"
    and "fetch_submissions get student_id = (ev, Inr [])"
  shows "process_student get current_datetime user_dict student =
           (ev @ [Stdout (''No submissions found, as of '' @ str_datetime current_datetime)], None) \<and>
         snd (process_student get' current_datetime' user_dict' student') \<noteq> Some (ValueError empty_max)"
  using assms process_student_no_empty_max
  by (simp add: process_student_def)

theorem no_submissions_notice_witness:
  "sample_user_dict (email sample_student) = Some (PInt 7) \<and>
   fetch_submissions (sample_service []) (PInt 7) = ([], Inr []) \<and>
   process_student (sample_service []) example_now sample_user_dict sample_student =
     ([Stdout ''No submissions found, as of 2024-05-01 09:03:00.000120''], None)"
proof -
  have h1: "sample_user_dict (email sample_student) = Some (PInt 7)"
    by (simp add: sample_user_dict_def sample_student_def)
  have h2: "fetch_submissions (sample_service []) (PInt 7) = ([], Inr [])"
    by (simp add: fetch_submissions_def submissions_url_7 sample_service_def json_get_def)
  have h3: "str_datetime example_now = ''2024-05-01 09:03:00.000120''"
    by (rule str_example_now)
  show ?thesis
    using h1 h2 h3
      no_submissions_notice [where user_dict = sample_user_dict and student = sample_student
        and student_id = "PInt 7" and get = "sample_service []" and ev = "[]"
        and current_datetime = example_now]
    by simp
qed

section \<open>The selection returns the first latest submission\<close>

lemma max_loop_member:
  "max_loop f m mv xs = Inr r \<Longrightarrow> f m = Inr mv \<Longrightarrow> r \<in> set (m # xs) \<and> \<not> isl (f r)"
proof (induction xs arbitrary: m mv)
  case Nil
  then show ?case by simp
next
  case (Cons x xs)
  show ?case
  proof (cases "f x")
    case (Inl e)
    with Cons.prems show ?thesis by simp
  next
    case (Inr kx)
    show ?thesis
    proof (cases "kx > mv")
      case True
      with Cons.prems Inr have "max_loop f x kx xs = Inr r" by simp
      from Cons.IH [OF this Inr] show ?thesis by auto
    next
      case False
      with Cons.prems Inr have "max_loop f m mv xs = Inr r" by simp
      from Cons.IH [OF this Cons.prems(2)] show ?thesis by auto
    qed
  qed
qed

lemma py_max_member:
  "py_max f xs = Inr r \<Longrightarrow> r \<in> set xs \<and> \<not> isl (f r)"
proof (cases xs)
  case Nil
  assume "py_max f xs = Inr r"
  with Nil show ?thesis by simp
next
  case (Cons x xs')
  assume a: "py_max f xs = Inr r"
  show ?thesis
  proof (cases "f x")
    case (Inl e)
    with a Cons show ?thesis by simp
  next
    case (Inr kx)
    with a Cons have "max_loop f x kx xs' = Inr r" by simp
    from max_loop_member [OF this Inr] Cons show ?thesis by simp
  qed
qed

text \<open>
  The invariant of the loop in \<^verbatim>\<open>max\<close>: the best item so far is the first one, among
  the items seen, whose key is the greatest.
\<close>

lemma max_loop_first:
  assumes "list_all (\<lambda>x. \<not> isl (f x)) xs"
    and "f m = Inr mv"
    and "\<forall>x\<in>set before. projr (f x) < mv"
    and "\<forall>x\<in>set after. projr (f x) \<le> mv"
  shows "\<exists>pre r post. max_loop f m mv xs = Inr r \<and> before @ m # after @ xs = pre @ r # post \<and>
           (\<forall>x\<in>set pre. projr (f x) < projr (f r)) \<and>
           (\<forall>x\<in>set post. projr (f x) \<le> projr (f r))"
  using assms
proof (induction xs arbitrary: m mv before after)
  case Nil
  then have "max_loop f m mv [] = Inr m \<and> before @ m # after @ [] = before @ m # after \<and>
      (\<forall>x\<in>set before. projr (f x) < projr (f m)) \<and> (\<forall>x\<in>set after. projr (f x) \<le> projr (f m))"
    by simp
  then show ?case by blast
next
  case (Cons x xs)
  from Cons.prems(1) obtain kx where kx: "f x = Inr kx"
    by (cases "f x") auto
  from Cons.prems(1) have rest: "list_all (\<lambda>x. \<not> isl (f x)) xs" by simp
  show ?case
  proof (cases "kx > mv")
    case True
    have b: "\<forall>y\<in>set (before @ m # after). projr (f y) < kx"
      using Cons.prems(2,3,4) True by auto
    have a: "\<forall>y\<in>set []. projr (f y) \<le> kx" by simp
    from Cons.IH [OF rest kx b a]
    obtain pre r post where
      "max_loop f x kx xs = Inr r" "(before @ m # after) @ x # [] @ xs = pre @ r # post"
      "\<forall>x\<in>set pre. projr (f x) < projr (f r)" "\<forall>x\<in>set post. projr (f x) \<le> projr (f r)"
      by blast
    with kx True have "max_loop f m mv (x # xs) = Inr r \<and>
        before @ m # after @ x # xs = pre @ r # post \<and>
        (\<forall>x\<in>set pre. projr (f x) < projr (f r)) \<and> (\<forall>x\<in>set post. projr (f x) \<le> projr (f r))"
      by simp
    then show ?thesis by blast
  next
    case False
    have a: "\<forall>y\<in>set (after @ [x]). projr (f y) \<le> mv"
      using Cons.prems(4) kx False by auto
    from Cons.IH [OF rest Cons.prems(2) Cons.prems(3) a]
    obtain pre r post where
      "max_loop f m mv xs = Inr r" "before @ m # (after @ [x]) @ xs = pre @ r # post"
      "\<forall>x\<in>set pre. projr (f x) < projr (f r)" "\<forall>x\<in>set post. projr (f x) \<le> projr (f r)"
      by blast
    with kx False have "max_loop f m mv (x # xs) = Inr r \<and>
        before @ m # after @ x # xs = pre @ r # post \<and>
        (\<forall>x\<in>set pre. projr (f x) < projr (f r)) \<and> (\<forall>x\<in>set post. projr (f x) \<le> projr (f r))"
      by simp
    then show ?thesis by blast
  qed
qed

lemma py_max_first:
  assumes "xs \<noteq> []" and "list_all (\<lambda>x. \<not> isl (f x)) xs"
  shows "\<exists>pre r post. py_max f xs = Inr r \<and> xs = pre @ r # post \<and>
           (\<forall>x\<in>set pre. projr (f x) < projr (f r)) \<and>
           (\<forall>x\<in>set post. projr (f x) \<le> projr (f r))"
proof -
  from assms(1) obtain x xs' where xs: "xs = x # xs'" by (cases xs) auto
  with assms(2) obtain kx where kx: "f x = Inr kx" by (cases "f x") auto
  from xs assms(2) have rest: "list_all (\<lambda>x. \<not> isl (f x)) xs'" by simp
  have "\<forall>y\<in>set []. projr (f y) < kx" "\<forall>y\<in>set []. projr (f y) \<le> kx" by simp_all
  from max_loop_first [OF rest kx this]
  show ?thesis using xs kx by simp
qed

lemmas parse_eval = fromisoformat_def parse_isoformat_date_def parse_digits_def digit_of_def
  parse_isoformat_time_def parse_hh_mm_ss_ff_def parse_fraction_def is_sign_def field_error_def
  days_in_month_def is_leap_def rstrip_Z_def Let_def

lemma created_key_march_1: "created_key march_1 = Inr (2024, 3, 1, 10, 0, 0, 0)"
  by (simp add: created_key_def march_1_def getitem_def parse_eval dt_fields_def)

lemma created_key_march_2: "created_key march_2 = Inr (2024, 3, 2, 9, 0, 0, 0)"
  by (simp add: created_key_def march_2_def getitem_def parse_eval dt_fields_def)

lemma created_key_march_2_again: "created_key march_2_again = Inr (2024, 3, 2, 9, 0, 0, 0)"
  by (simp add: created_key_def march_2_again_def getitem_def parse_eval dt_fields_def)

text \<open>
  Among the submissions of a non-empty list whose timestamps can all be read,
  \<open>find_accepted_submission\<close> returns the first one with the greatest key: every
  submission before it in the list has a strictly smaller key, and no submission after
  it has a greater one.  The key of a submission is the value that the key function
  computes from its \<^verbatim>\<open>created_at\<close>, which is what \<^verbatim>\<open>max\<close> compares.
\<close>

lemma find_accepted_submission_first:
  assumes "submissions \<noteq> []"
    and "list_all (\<lambda>s. \<not> isl (created_key s)) submissions"
  shows "\<exists>pre r post.
           find_accepted_submission submissions = Inr r \<and> submissions = pre @ r # post \<and>
           (\<forall>s\<in>set pre. projr (created_key s) < projr (created_key r)) \<and>
           (\<forall>s\<in>set post. projr (created_key s) \<le> projr (created_key r))"
  unfolding find_accepted_submission_def
  using assms by (rule py_max_first)

lemma find_accepted_submission_first_example:
  "[march_1, march_2, march_2_again] \<noteq> [] \<and>
   list_all (\<lambda>s. \<not> isl (created_key s)) [march_1, march_2, march_2_again] \<and>
   (\<exists>pre r post.
      find_accepted_submission [march_1, march_2, march_2_again] = Inr r \<and>
      [march_1, march_2, march_2_again] = pre @ r # post \<and>
      (\<forall>s\<in>set pre. projr (created_key s) < projr (created_key r)) \<and>
      (\<forall>s\<in>set post. projr (created_key s) \<le> projr (created_key r))) \<and>
   find_accepted_submission [march_1, march_2, march_2_again] = Inr march_2"
proof -
  have h1: "[march_1, march_2, march_2_again] \<noteq> []" by simp
  have h2: "list_all (\<lambda>s. \<not> isl (created_key s)) [march_1, march_2, march_2_again]"
    by (simp add: created_key_march_1 created_key_march_2 created_key_march_2_again)
  have h3: "find_accepted_submission [march_1, march_2, march_2_again] = Inr march_2"
    by (simp add: find_accepted_submission_def created_key_march_1 created_key_march_2
        created_key_march_2_again)
  from find_accepted_submission_first [OF h1 h2] h1 h2 h3 show ?thesis by blast
qed

section \<open>The branch that prints "LATE"\<close>

lemma find_accepted_submission_member:
  "find_accepted_submission submissions = Inr r \<Longrightarrow> r \<in> set submissions \<and> r \<noteq> []"
proof -
  assume "find_accepted_submission submissions = Inr r"
  then have m: "r \<in> set submissions" and k: "\<not> isl (created_key r)"
    unfolding find_accepted_submission_def by (auto dest: py_max_member)
  from k have "r \<noteq> []"
    by (auto simp: created_key_def getitem_def)
  with m show ?thesis by simp
qed

lemma fetch_submissions_events:
  "fetch_submissions get sid = (ev, r) \<Longrightarrow> \<forall>l. Stdout l \<notin> set ev"
  by (auto simp: fetch_submissions_def split: http_reply.splits if_splits option.splits)

lemma late_is_no_url:
  "''LATE - No valid submissions before cutoff datetime'' \<noteq> SUBMISSION_URL_TEMPLATE a b"
  "''LATE - No valid submissions before cutoff datetime'' \<noteq> MISSING_EMAIL_URL_TEMPLATE q"
  "''LATE - No valid submissions before cutoff datetime'' \<noteq> ''No submissions found, as of '' @ t"
  by (simp_all add: SUBMISSION_URL_TEMPLATE_def MISSING_EMAIL_URL_TEMPLATE_def)

lemma process_student_never_late:
  "Stdout ''LATE - No valid submissions before cutoff datetime''
     \<notin> set (fst (process_student get current_datetime user_dict student))"
proof (cases "user_dict (email student)")
  case None
  then show ?thesis
    using late_is_no_url(2) by (simp add: process_student_def)
next
  case (Some student_id)
  obtain ev r where f: "fetch_submissions get student_id = (ev, r)"
    by (cases "fetch_submissions get student_id")
  from fetch_submissions_events [OF f]
  have ev: "Stdout ''LATE - No valid submissions before cutoff datetime'' \<notin> set ev" by simp
  show ?thesis
  proof (cases r)
    case (Inl e)
    with Some f ev show ?thesis by (simp add: process_student_def)
  next
    case (Inr submissions)
    show ?thesis
    proof (cases "submissions = []")
      case True
      with Some f ev Inr show ?thesis
        using late_is_no_url(3) by (simp add: process_student_def)
    next
      case False
      show ?thesis
      proof (cases "find_accepted_submission submissions")
        case (Inl e)
        with Some f ev Inr False show ?thesis by (simp add: process_student_def)
      next
        case sel: (Inr latest)
        from find_accepted_submission_member [OF sel] have ne: "latest \<noteq> []" by simp
        show ?thesis
        proof (cases "getitem latest ''id''")
          case (Inl e)
          with Some f ev Inr False sel ne show ?thesis by (simp add: process_student_def)
        next
          case i: (Inr submission_id)
          with Some f ev Inr False sel ne show ?thesis
            using late_is_no_url(1) by (simp add: process_student_def)
        qed
      qed
    qed
  qed
qed

text \<open>
  C6: for a non-empty list of submissions whose timestamps can all be read, the
  selection returns one of the submissions of the list; whenever the selection returns,
  what it returns is a submission of the list and a non-empty dictionary, hence true;
  and the loop body never prints "LATE - No valid submissions before cutoff datetime".
\<close>

theorem late_branch_unreachable:
  assumes "submissions \<noteq> []"
  shows "(list_all (\<lambda>s. \<not> isl (created_key s)) submissions \<longrightarrow>
            (\<exists>s\<in>set submissions. find_accepted_submission submissions = Inr s)) \<and>
         (\<forall>r. find_accepted_submission submissions = Inr r \<longrightarrow> r \<in> set submissions \<and> r \<noteq> []) \<and>
         Stdout ''LATE - No valid submissions before cutoff datetime''
           \<notin> set (fst (process_student get current_datetime user_dict student))"
proof -
  have "\<exists>s\<in>set submissions. find_accepted_submission submissions = Inr s"
    if "list_all (\<lambda>s. \<not> isl (created_key s)) submissions"
  proof -
    from py_max_first [OF assms that]
    obtain r where r: "py_max created_key submissions = Inr r" by blast
    then have "r \<in> set submissions" by (auto dest: py_max_member)
    with r show ?thesis by (auto simp: find_accepted_submission_def)
  qed
  then show ?thesis
    using find_accepted_submission_member process_student_never_late by blast
qed

theorem late_branch_unreachable_witness:
  "[march_1, march_2] \<noteq> [] \<and>
   list_all (\<lambda>s. \<not> isl (created_key s)) [march_1, march_2] \<and>
   list_ex (\<lambda>s. find_accepted_submission [march_1, march_2] = Inr s) [march_1, march_2] \<and>
   Stdout ''LATE - No valid submissions before cutoff datetime''
     \<notin> set (fst (process_student (sample_service [march_1, march_2]) example_now
                      sample_user_dict sample_student))"
proof -
  have h1: "[march_1, march_2] \<noteq> []" by simp
  have h2: "list_all (\<lambda>s. \<not> isl (created_key s)) [march_1, march_2]"
    by (simp add: created_key_march_1 created_key_march_2)
  from late_branch_unreachable [OF h1, of "sample_service [march_1, march_2]" example_now
      sample_user_dict sample_student] h1 h2
  show ?thesis
    unfolding list_ex_iff by blast
qed

section \<open>A roster entry that the directory does not know\<close>

lemma url_encode_append: "url_encode (a @ b) = url_encode a @ url_encode b"
  by (simp add: url_encode_def)

lemma url_encode_unreserved: "list_all unreserved s \<Longrightarrow> url_encode s = s"
  by (induction s) (simp_all add: url_encode_def url_encode_char_def)

lemma url_encode_space: "url_encode '' '' = ''%20''"
  by (simp add: url_encode_def url_encode_char_def unreserved_def percent_byte_def hex_digit_def)

lemma url_encode_names:
  assumes "list_all unreserved a" and "list_all unreserved b"
  shows "url_encode (a @ '' '' @ b) = a @ ''%20'' @ b"
proof -
  have "url_encode (a @ '' '' @ b) = url_encode a @ url_encode '' '' @ url_encode b"
    by (simp only: url_encode_append)
  with assms show ?thesis
    by (simp only: url_encode_unreserved url_encode_space)
qed

text \<open>
  For a roster record whose email is not a key of the dictionary built from the
  directory, the line printed is the search URL whose query is the first name, the text
  \<^verbatim>\<open>%20\<close> and the last name, the two names as they stand in the record.  When both
  names consist of letters, digits and \<^verbatim>\<open>- . _ ~\<close> only, this query is the URL encoding
  of the first and last name separated by a space.
\<close>

lemma missing_email_line:
  assumes "user_dict (email student) = None"
  shows "process_student get current_datetime user_dict student =
           ([Stdout (''https://edstem.org/au/courses/18651/lessons/61238/slides/414786/submissions?q='' @
                     first_name student @ ''%20'' @ last_name student)], None) \<and>
         (list_all unreserved (first_name student) \<and> list_all unreserved (last_name student) \<longrightarrow>
            first_name student @ ''%20'' @ last_name student =
              url_encode (first_name student @ '' '' @ last_name student))"
proof -
  have "process_student get current_datetime user_dict student =
          ([Stdout (''https://edstem.org/au/courses/18651/lessons/61238/slides/414786/submissions?q='' @
                    first_name student @ ''%20'' @ last_name student)], None)"
    using assms by (simp add: process_student_def missing_email_url)
  then show ?thesis
    using url_encode_names [of "first_name student" "last_name student"] by simp
qed

text \<open>
  C4 does not hold of the script for a name that holds a character with a special
  meaning in a URL.  The second entry of the sample roster has a space in the first
  name; its email is not in the directory, and the line printed for it carries the
  space as it is, where the URL encoding of the two names has \<^verbatim>\<open>%20\<close>.
\<close>

theorem missing_email_line_not_encoded:
  "sample_user_dict (email second_student) = None \<and>
   process_student no_service example_now sample_user_dict second_student =
     ([Stdout ''https://edstem.org/au/courses/18651/lessons/61238/slides/414786/submissions?q=KASHYAP KOUTILYA%20ADIPUDI''],
      None) \<and>
   url_encode (first_name second_student @ '' '' @ last_name second_student) =
     ''KASHYAP%20KOUTILYA%20ADIPUDI''"
  by (simp add: process_student_def sample_user_dict_def second_student_def missing_email_url
      url_encode_def url_encode_char_def unreserved_def percent_byte_def hex_digit_def)

section \<open>Stripping and lower-casing\<close>

lemma py_lower_char_not_upper: "\<not> py_isupper (py_lower_char c)"
  by (auto simp: py_lower_char_def py_isupper_def Let_def)

lemma py_lower_no_upper: "\<not> list_ex py_isupper (py_lower s)"
  by (induction s) (simp_all add: py_lower_def py_lower_char_not_upper)

lemma py_lower_length: "length (py_lower s) = length s"
  by (simp add: py_lower_def)

lemma py_lower_char_space: "py_isspace (py_lower_char c) = py_isspace c"
  by (auto simp: py_lower_char_def py_isupper_def py_isspace_def Let_def)

lemma dropWhile_trimmed_front: "dropWhile P s = c # cs \<Longrightarrow> \<not> P c"
  by (metis dropWhile_eq_Cons_conv)

lemma trimmed_py_strip: "trimmed (py_strip s)"
proof (cases "py_strip s")
  case Nil
  then show ?thesis by (simp add: trimmed_def)
next
  case (Cons c cs)
  let ?a = "dropWhile py_isspace s"
  let ?b = "dropWhile py_isspace (rev ?a)"
  from Cons have b: "?b \<noteq> []" by (auto simp: py_strip_def)
  then have l: "\<not> py_isspace (hd ?b)"
    by (simp add: hd_dropWhile)
  from b have a: "?a \<noteq> []"
    by (metis dropWhile.simps(1) rev.simps(1))
  then have f: "\<not> py_isspace (hd ?a)"
    by (simp add: hd_dropWhile)
  have "last (py_strip s) = hd ?b"
    using b by (simp add: py_strip_def last_rev)
  moreover have "hd (py_strip s) = hd ?a"
  proof -
    have "\<exists>zs. rev ?a = zs @ ?b"
      by (metis takeWhile_dropWhile_id)
    then obtain zs where "rev ?a = zs @ ?b" by blast
    then have eq: "?a = rev ?b @ rev zs"
      by (metis rev_append rev_rev_ident)
    from b have "rev ?b \<noteq> []" by simp
    then have "hd (rev ?b @ rev zs) = hd (rev ?b)" by (rule hd_append2)
    with eq have "hd ?a = hd (rev ?b)" by metis
    then show ?thesis
      by (simp add: py_strip_def)
  qed
  ultimately show ?thesis
    using Cons l f by (auto simp: trimmed_def split: if_splits)
qed

lemma trimmed_py_lower: "trimmed s \<Longrightarrow> trimmed (py_lower s)"
  by (cases s) (auto simp: trimmed_def py_lower_def py_lower_char_space last_map)

section \<open>Reading well-formed roster lines\<close>

lemma delimiter_plain: "\<not> is_nl delimiter" "delimiter \<noteq> quotechar"
  by (simp_all add: is_nl_def delimiter_def quotechar_def)

lemma feed_in_field:
  "list_all (\<lambda>c. c \<noteq> delimiter \<and> \<not> is_nl c) f \<Longrightarrow>
   length (b @ f) \<le> field_limit \<Longrightarrow>
   feed_chars \<lparr>state = IN_FIELD, rfields = flds, rfield = b\<rparr> (f @ rest) =
   feed_chars \<lparr>state = IN_FIELD, rfields = flds, rfield = b @ f\<rparr> rest"
  by (induction f arbitrary: b) (simp_all add: parse_add_char_def)

lemma feed_field_start:
  assumes "plain_field f" and "f \<noteq> []" and "st = START_RECORD \<or> st = START_FIELD"
  shows "feed_chars \<lparr>state = st, rfields = flds, rfield = []\<rparr> (f @ rest) =
         feed_chars \<lparr>state = IN_FIELD, rfields = flds, rfield = f\<rparr> rest"
proof -
  from assms(2) obtain c f' where f: "f = c # f'" by (cases f) auto
  with assms(1) have c: "c \<noteq> delimiter" "\<not> is_nl c" "c \<noteq> quotechar"
    and f': "list_all (\<lambda>c. c \<noteq> delimiter \<and> \<not> is_nl c) f'"
    and len: "length ([c] @ f') \<le> field_limit"
    by (simp_all add: plain_field_def list_all_iff)
  from len have "0 < field_limit" by simp
  with c assms(3)
  have "parse_process_char \<lparr>state = st, rfields = flds, rfield = []\<rparr> (Some c) =
        Inr \<lparr>state = IN_FIELD, rfields = flds, rfield = [c]\<rparr>"
    by (auto simp: start_field_def add_char_then_def parse_add_char_def)
  then show ?thesis
    using feed_in_field [OF f' len, of flds rest] f by simp
qed

lemma feed_field_delimiter:
  assumes "plain_field f" and "st = START_RECORD \<or> st = START_FIELD"
  shows "feed_chars \<lparr>state = st, rfields = flds, rfield = []\<rparr> (f @ delimiter # rest) =
         feed_chars \<lparr>state = START_FIELD, rfields = flds @ [f], rfield = []\<rparr> rest"
proof (cases "f = []")
  case True
  with assms(2) show ?thesis
    using delimiter_plain by (auto simp: start_field_def parse_save_field_def)
next
  case False
  from feed_field_start [OF assms(1) False assms(2), of flds "delimiter # rest"]
  show ?thesis
    using delimiter_plain by (simp add: parse_save_field_def)
qed

lemma feed_line_breaks:
  "list_all is_nl e \<Longrightarrow>
   feed_chars \<lparr>state = EAT_CRNL, rfields = flds, rfield = b\<rparr> e =
   Inr \<lparr>state = EAT_CRNL, rfields = flds, rfield = b\<rparr>"
  by (induction e) simp_all

lemma feed_last_field:
  assumes "plain_field f" and "list_all is_nl e"
  shows "feed_line \<lparr>state = START_FIELD, rfields = flds, rfield = []\<rparr> (f @ e) =
         Inr \<lparr>state = START_RECORD, rfields = flds @ [f], rfield = []\<rparr>"
proof (cases "f = []")
  case True
  show ?thesis
  proof (cases e)
    case Nil
    with True show ?thesis
      by (simp add: feed_line_def start_field_def parse_save_field_def)
  next
    case (Cons c e')
    with assms(2) have "is_nl c" "list_all is_nl e'" by simp_all
    with True Cons show ?thesis
      by (simp add: feed_line_def start_field_def parse_save_field_def feed_line_breaks)
  qed
next
  case False
  have start: "feed_chars \<lparr>state = START_FIELD, rfields = flds, rfield = []\<rparr> (f @ e) =
               feed_chars \<lparr>state = IN_FIELD, rfields = flds, rfield = f\<rparr> e"
    using assms(1) False by (simp add: feed_field_start)
  show ?thesis
  proof (cases e)
    case Nil
    with start show ?thesis
      by (simp add: feed_line_def parse_save_field_def)
  next
    case (Cons c e')
    with assms(2) have "is_nl c" "list_all is_nl e'" by simp_all
    with start Cons show ?thesis
      by (simp add: feed_line_def parse_save_field_def feed_line_breaks)
  qed
qed

lemma feed_roster_line:
  assumes "well_formed (f1, f2, f3, f4, e)"
  shows "feed_line parse_reset (line_of (f1, f2, f3, f4, e)) =
         Inr \<lparr>state = START_RECORD, rfields = [f1, f2, f3, f4], rfield = []\<rparr>"
proof -
  from assms have p: "plain_field f1" "plain_field f2" "plain_field f3" "plain_field f4"
    and e: "list_all is_nl e"
    by (simp_all add: well_formed_def)
  have "feed_chars parse_reset (roster_line f1 f2 f3 f4 e) =
        feed_chars \<lparr>state = START_FIELD, rfields = [f1, f2, f3], rfield = []\<rparr> (f4 @ e)"
    by (simp add: parse_reset_def roster_line_def feed_field_delimiter p)
  then have "feed_line parse_reset (roster_line f1 f2 f3 f4 e) =
        feed_line \<lparr>state = START_FIELD, rfields = [f1, f2, f3], rfield = []\<rparr> (f4 @ e)"
    by (simp add: feed_line_def)
  with feed_last_field [OF p(4) e, of "[f1, f2, f3]"] show ?thesis
    by (simp add: line_of_def)
qed

lemma append_row_four:
  "append_row student_data [f1, f2, f3, f4] = Inr (student_data @ [record_of (f1, f2, f3, f4, e)])"
  by (simp add: append_row_def student_of_row_def strip_column_def column_def record_of_def)

lemma read_rows_well_formed:
  "list_all well_formed rows \<Longrightarrow>
   read_rows parse_reset (map line_of rows) student_data = Inr (student_data @ map record_of rows)"
proof (induction rows arbitrary: student_data)
  case Nil
  then show ?case by (simp add: parse_reset_def)
next
  case (Cons l rows)
  obtain f1 f2 f3 f4 e where l: "l = (f1, f2, f3, f4, e)" by (cases l)
  from Cons.prems l have wf: "well_formed (f1, f2, f3, f4, e)" and rest: "list_all well_formed rows"
    by simp_all
  from feed_roster_line [OF wf] append_row_four [of student_data f1 f2 f3 f4 e] Cons.IH [OF rest]
  show ?case
    by (simp add: l)
qed

lemma record_of_fields:
  "trimmed (first_name (record_of l)) \<and> trimmed (last_name (record_of l)) \<and>
   trimmed (email (record_of l)) \<and> \<not> list_ex py_isupper (email (record_of l))"
  by (cases l) (simp add: record_of_def trimmed_py_strip trimmed_py_lower py_lower_no_upper)

text \<open>
  C2: a roster file of N well-formed lines (four plain fields separated by tabs, then
  the line ending) is read as N records, one per line and in the order of the lines:
  the first and second field stripped as first and last name, the fourth field stripped
  and lower-cased as email, the third field ignored.  Each of the three values neither
  starts nor ends with whitespace, and the email holds no upper-case letter.
\<close>

theorem read_student_data_well_formed:
  assumes "files file_path = Lines (map line_of rows)"
    and "list_all well_formed rows"
  shows "read_student_data files file_path = ([], Inr (map record_of rows)) \<and>
         length (map record_of rows) = length rows \<and>
         list_all (\<lambda>s. trimmed (first_name s) \<and> trimmed (last_name s) \<and> trimmed (email s) \<and>
                        \<not> list_ex py_isupper (email s)) (map record_of rows)"
  using assms read_rows_well_formed [of rows "[]"] record_of_fields
  by (simp add: read_student_data_def list_all_iff)

lemma sample_rows_well_formed: "list_all well_formed sample_rows"
  by (simp add: sample_rows_def well_formed_def plain_field_def delimiter_def is_nl_def quotechar_def
      field_limit_def)

lemma sample_records: "map record_of sample_rows = [sample_student, second_student]"
  by code_simp

lemma read_sample_roster:
  "read_student_data sample_roster STUDENTS_FILE = ([], Inr [sample_student, second_student])"
  using read_rows_well_formed [OF sample_rows_well_formed, of "[]"] sample_records
  by (simp add: read_student_data_def sample_roster_def STUDENTS_FILE_def)

theorem read_student_data_well_formed_witness:
  "sample_roster STUDENTS_FILE = Lines (map line_of sample_rows) \<and>
   list_all well_formed sample_rows \<and>
   read_student_data sample_roster STUDENTS_FILE = ([], Inr [sample_student, second_student]) \<and>
   length [sample_student, second_student] = length sample_rows"
proof -
  have h: "sample_roster STUDENTS_FILE = Lines (map line_of sample_rows)"
    by (simp add: sample_roster_def STUDENTS_FILE_def)
  from read_student_data_well_formed [where files = sample_roster and file_path = STUDENTS_FILE
      and rows = sample_rows] h sample_rows_well_formed
  show ?thesis
    by (simp add: sample_records)
qed

section \<open>Requests that fail\<close>

text \<open>
  C7: when the roster has been read and holds a student, and the directory answers with
  a status other than 200, \<open>fetch_users\<close> reports the failure on the error stream and
  returns the empty list, and the run ends after the line "No users fetched from API.
  Exiting." without a line for any student.  When the request for the submissions of a
  student of the directory is answered with a status other than 200,
  \<open>fetch_submissions\<close> reports the failure on the error stream and returns the empty
  list, the line for that student is the notice "No submissions found", and the loop
  goes on with the students that remain.
\<close>

theorem failed_requests:
  "(read_student_data (fs E) STUDENTS_FILE = (evs, Inr students) \<and> students \<noteq> [] \<and>
    http_get E USERS_API_URL = Reply status body \<and> status \<noteq> 200 \<longrightarrow>
      fetch_users (http_get E) =
        ([Stderr (''Failed to fetch users. Status code: '' @ str_int status)], Inr []) \<and>
      main E =
        (evs @ [Stderr (''Failed to fetch users. Status code: '' @ str_int status),
                Stdout ''No users fetched from API. Exiting.''], None)) \<and>
   (user_dict (email student) = Some student_id \<and>
    get (SUBMISSIONS_API_URL_TEMPLATE student_id) = Reply status' body' \<and> status' \<noteq> 200 \<longrightarrow>
      fetch_submissions get student_id =
        ([Stderr (''Failed to fetch submissions for student ID '' @ py_str student_id @
                  ''. Status code: '' @ str_int status')], Inr []) \<and>
      process_student get current_datetime user_dict student =
        ([Stderr (''Failed to fetch submissions for student ID '' @ py_str student_id @
                  ''. Status code: '' @ str_int status'),
          Stdout (''No submissions found, as of '' @ str_datetime current_datetime)], None) \<and>
      main_loop get current_datetime user_dict (student # others) =
        (Stderr (''Failed to fetch submissions for student ID '' @ py_str student_id @
                 ''. Status code: '' @ str_int status') #
         Stdout (''No submissions found, as of '' @ str_datetime current_datetime) #
         fst (main_loop get current_datetime user_dict others),
         snd (main_loop get current_datetime user_dict others)))"
  by (simp add: main_def fetch_users_def fetch_submissions_def process_student_def
      split: prod.splits)

lemma str_int_503: "str_int 503 = ''503''"
  by (simp add: str_int_def str_nat_eval)

theorem failed_requests_witness:
  "read_student_data (fs failing_env) STUDENTS_FILE = ([], Inr [sample_student, second_student]) \<and>
   [sample_student, second_student] \<noteq> [] \<and>
   http_get failing_env USERS_API_URL = Reply 503 None \<and> (503 :: int) \<noteq> 200 \<and>
   main failing_env =
     ([Stderr ''Failed to fetch users. Status code: 503'',
       Stdout ''No users fetched from API. Exiting.''], None) \<and>
   sample_user_dict (email sample_student) = Some (PInt 7) \<and>
   failing_service (SUBMISSIONS_API_URL_TEMPLATE (PInt 7)) = Reply 503 None \<and>
   main_loop failing_service example_now sample_user_dict [sample_student, second_student] =
     ([Stderr ''Failed to fetch submissions for student ID 7. Status code: 503'',
       Stdout ''No submissions found, as of 2024-05-01 09:03:00.000120'',
       Stdout ''https://edstem.org/au/courses/18651/lessons/61238/slides/414786/submissions?q=KASHYAP KOUTILYA%20ADIPUDI''],
      None)"
proof -
  have a1: "read_student_data (fs failing_env) STUDENTS_FILE = ([], Inr [sample_student, second_student])"
    using read_sample_roster by (simp add: failing_env_def)
  have a2: "http_get failing_env USERS_API_URL = Reply 503 None"
    by (simp add: failing_env_def failing_service_def)
  have b1: "sample_user_dict (email sample_student) = Some (PInt 7)"
    by (simp add: sample_user_dict_def sample_student_def)
  have b2: "failing_service (SUBMISSIONS_API_URL_TEMPLATE (PInt 7)) = Reply 503 None"
    by (simp add: failing_service_def)
  have r: "main_loop failing_service example_now sample_user_dict [second_student] =
      ([Stdout ''https://edstem.org/au/courses/18651/lessons/61238/slides/414786/submissions?q=KASHYAP KOUTILYA%20ADIPUDI''],
       None)"
    by (simp add: process_student_def sample_user_dict_def second_student_def missing_email_url)
  from failed_requests [where E = failing_env and evs = "[]"
      and students = "[sample_student, second_student]" and status = 503 and body = None
      and user_dict = sample_user_dict and student = sample_student and student_id = "PInt 7"
      and get = failing_service and status' = 503 and body' = None
      and current_datetime = example_now and others = "[second_student]"]
    a1 a2 b1 b2 r
  show ?thesis
    by (simp add: str_int_503 str_int_7 str_example_now)
qed

section \<open>The join on emails\<close>

lemma student_of_row_lower:
  "student_of_row row = Inr s \<Longrightarrow> \<not> list_ex py_isupper (email s)"
  by (auto simp: student_of_row_def py_lower_no_upper split: sum.splits)

lemma append_row_lower:
  assumes "append_row student_data row = Inr student_data'"
    and "list_all (\<lambda>s. \<not> list_ex py_isupper (email s)) student_data"
  shows "list_all (\<lambda>s. \<not> list_ex py_isupper (email s)) student_data'"
  using assms
  by (auto simp: append_row_def split: if_splits sum.splits dest: student_of_row_lower)

lemma read_rows_lower:
  "read_rows r ls student_data = Inr result \<Longrightarrow>
   list_all (\<lambda>s. \<not> list_ex py_isupper (email s)) student_data \<Longrightarrow>
   list_all (\<lambda>s. \<not> list_ex py_isupper (email s)) result"
proof (induction ls arbitrary: r student_data)
  case Nil
  then show ?case
    by (auto split: if_splits dest: append_row_lower)
next
  case (Cons l ls)
  from Cons.prems(1) obtain r' where r': "feed_line r l = Inr r'"
    by (cases "feed_line r l") auto
  show ?case
  proof (cases "state r' = START_RECORD")
    case True
    with Cons.prems(1) r' obtain student_data' where
      a: "append_row student_data (rfields r') = Inr student_data'" and
      b: "read_rows parse_reset ls student_data' = Inr result"
      by (cases "append_row student_data (rfields r')") auto
    from Cons.IH [OF b append_row_lower [OF a Cons.prems(2)]] show ?thesis .
  next
    case False
    with Cons.prems(1) r' have "read_rows r' ls student_data = Inr result" by simp
    from Cons.IH [OF this Cons.prems(2)] show ?thesis .
  qed
qed

lemma roster_emails_lower:
  assumes "read_student_data files file_path = (ev, Inr students)"
  shows "list_all (\<lambda>s. \<not> list_ex py_isupper (email s)) students"
proof (cases "files file_path")
  case Missing
  with assms show ?thesis by (simp add: read_student_data_def)
next
  case Unreadable
  with assms show ?thesis by (simp add: read_student_data_def)
next
  case (Lines ls)
  with assms have "read_rows parse_reset ls [] = Inr students"
    by (simp add: read_student_data_def)
  from read_rows_lower [OF this] show ?thesis by simp
qed

text \<open>
  C9: the emails of the records that \<open>read_student_data\<close> returns hold no upper-case
  letter, and the dictionary of the directory is asked for exactly these strings.  So
  a directory email \<open>e\<close> with an upper-case letter is the email of no roster record; the
  entry stored under \<open>e\<close> is never found, and the line printed for any roster record is
  the same with or without that entry.
\<close>

theorem uppercase_directory_email_unmatched:
  assumes "read_student_data files file_path = (ev, Inr students)"
    and "student \<in> set students"
    and "list_ex py_isupper e"
  shows "email student \<noteq> e \<and>
         (user_dict(e \<mapsto> student_id)) (email student) = user_dict (email student) \<and>
         process_student get current_datetime (user_dict(e \<mapsto> student_id)) student =
           process_student get current_datetime user_dict student"
proof -
  from roster_emails_lower [OF assms(1)] assms(2)
  have "\<not> list_ex py_isupper (email student)"
    by (simp add: list_all_iff)
  with assms(3) have "email student \<noteq> e" by auto
  then show ?thesis
    by (simp add: process_student_def)
qed

theorem uppercase_directory_email_unmatched_witness:
  "read_student_data sample_roster STUDENTS_FILE = ([], Inr [sample_student, second_student]) \<and>
   sample_student \<in> set [sample_student, second_student] \<and>
   list_ex py_isupper ''ZABB0738@UNI.SYDNEY.EDU.AU'' \<and>
   email sample_student \<noteq> ''ZABB0738@UNI.SYDNEY.EDU.AU'' \<and>
   process_student no_service example_now
       (Map.empty(''ZABB0738@UNI.SYDNEY.EDU.AU'' \<mapsto> PInt 7)) sample_student =
     process_student no_service example_now Map.empty sample_student"
proof -
  have h2: "sample_student \<in> set [sample_student, second_student]" by simp
  have h3: "list_ex py_isupper ''ZABB0738@UNI.SYDNEY.EDU.AU''"
    by (simp add: py_isupper_def)
  from uppercase_directory_email_unmatched [where files = sample_roster
      and file_path = STUDENTS_FILE and ev = "[]" and students = "[sample_student, second_student]"
      and student = sample_student and e = "''ZABB0738@UNI.SYDNEY.EDU.AU''"
      and user_dict = Map.empty and student_id = "PInt 7" and get = no_service
      and current_datetime = example_now]
    read_sample_roster h2 h3
  show ?thesis by blast
qed

section \<open>Timestamps with different offsets\<close>

lemma created_key_early: "created_key early_submission = Inr (2024, 4, 7, 2, 30, 0, 0)"
  by (simp add: created_key_def early_submission_def getitem_def parse_eval dt_fields_def)

lemma created_key_late: "created_key late_submission = Inr (2024, 4, 7, 2, 10, 0, 0)"
  by (simp add: created_key_def late_submission_def getitem_def parse_eval dt_fields_def)

lemma select_early:
  "find_accepted_submission [early_submission, late_submission] = Inr early_submission"
  by (simp add: find_accepted_submission_def created_key_early created_key_late)

lemma instant_early: "submission_instant early_submission = Inr 63848100600000000"
  by (simp add: submission_instant_def early_submission_def getitem_def iso8601_instant_def
      parse_eval utc_instant_def ymd2ord_def days_before_year_def days_before_month_def)

lemma instant_late: "submission_instant late_submission = Inr 63848103000000000"
  by (simp add: submission_instant_def late_submission_def getitem_def iso8601_instant_def
      parse_eval utc_instant_def ymd2ord_def days_before_year_def days_before_month_def)

lemma sample_directory: "user_dict_of Map.empty sample_users = Inr sample_user_dict"
  by (simp add: sample_users_def getitem_def sample_user_dict_def)

lemma fetch_sample_users:
  "fetch_users (sample_service submissions) = ([], Inr sample_users)"
  by (simp add: fetch_users_def users_url sample_service_def json_get_def)

lemma fetch_sample_submissions:
  "fetch_submissions (sample_service submissions) (PInt 7) = ([], Inr submissions)"
  by (simp add: fetch_submissions_def submissions_url_7 sample_service_def json_get_def)

lemma early_id: "getitem early_submission ''id'' = Inr (PInt 1)" "early_submission \<noteq> []"
  by (simp_all add: getitem_def early_submission_def)

lemma sample_lookups:
  "sample_user_dict (email sample_student) = Some (PInt 7)"
  "sample_user_dict (email second_student) = None"
  by (simp_all add: sample_user_dict_def sample_student_def second_student_def)

lemma second_names:
  "first_name second_student = ''KASHYAP KOUTILYA''" "last_name second_student = ''ADIPUDI''"
  by (simp_all add: second_student_def)

text \<open>
  C1 does not hold of the script for timestamps that carry different UTC offsets.  The
  student with id 7 has two submissions: number 1 at 02:30 with offset +11:00, and
  number 2 at 02:10 with offset +10:00, which is forty minutes later.  The run prints
  the link to submission 1.
\<close>

theorem offsets_are_dropped:
  "main (sample_env [early_submission, late_submission]) =
     ([Stdout ''https://edstem.org/au/courses/18651/lessons/61238/slides/414786/submissions?u=7&s=1'',
       Stdout ''https://edstem.org/au/courses/18651/lessons/61238/slides/414786/submissions?q=KASHYAP KOUTILYA%20ADIPUDI''],
      None) \<and>
   submission_instant early_submission = Inr 63848100600000000 \<and>
   submission_instant late_submission = Inr 63848103000000000 \<and>
   projr (submission_instant early_submission) < projr (submission_instant late_submission)"
proof -
  have first: "process_student (sample_service [early_submission, late_submission]) example_now
      sample_user_dict sample_student =
      ([Stdout ''https://edstem.org/au/courses/18651/lessons/61238/slides/414786/submissions?u=7&s=1''],
       None)"
    by (simp add: process_student_def sample_lookups fetch_sample_submissions select_early
        early_id submission_url str_int_7 str_int_1)
  have second: "process_student (sample_service [early_submission, late_submission]) example_now
      sample_user_dict second_student =
      ([Stdout ''https://edstem.org/au/courses/18651/lessons/61238/slides/414786/submissions?q=KASHYAP KOUTILYA%20ADIPUDI''],
       None)"
    by (simp add: process_student_def sample_lookups missing_email_url second_names)
  have users: "sample_users \<noteq> []"
    by (simp add: sample_users_def)
  have "main (sample_env [early_submission, late_submission]) =
     ([Stdout ''https://edstem.org/au/courses/18651/lessons/61238/slides/414786/submissions?u=7&s=1'',
       Stdout ''https://edstem.org/au/courses/18651/lessons/61238/slides/414786/submissions?q=KASHYAP KOUTILYA%20ADIPUDI''],
      None)"
    by (simp add: main_def sample_env_def read_sample_roster fetch_sample_users users
        sample_directory first second)
  then show ?thesis
    by (simp add: instant_early instant_late)
qed

lemma created_key_brisbane: "created_key brisbane_submission = Inr (2024, 4, 7, 1, 30, 0, 0)"
  by (simp add: created_key_def brisbane_submission_def getitem_def parse_eval dt_fields_def)

lemma created_key_sydney: "created_key sydney_submission = Inr (2024, 4, 7, 2, 30, 0, 0)"
  by (simp add: created_key_def sydney_submission_def getitem_def parse_eval dt_fields_def)

lemma select_sydney:
  "find_accepted_submission [brisbane_submission, sydney_submission] = Inr sydney_submission"
  by (simp add: find_accepted_submission_def created_key_brisbane created_key_sydney)

lemma instant_brisbane: "submission_instant brisbane_submission = Inr 63848100600000000"
  by (simp add: submission_instant_def brisbane_submission_def getitem_def iso8601_instant_def
      parse_eval utc_instant_def ymd2ord_def days_before_year_def days_before_month_def)

lemma instant_sydney: "submission_instant sydney_submission = Inr 63848100600000000"
  by (simp add: submission_instant_def sydney_submission_def getitem_def iso8601_instant_def
      parse_eval utc_instant_def ymd2ord_def days_before_year_def days_before_month_def)

lemma sydney_id: "getitem sydney_submission ''id'' = Inr (PInt 2)" "sydney_submission \<noteq> []"
  by (simp_all add: getitem_def sydney_submission_def)

text \<open>
  C10 does not hold of the script for timestamps that carry different UTC offsets.  The
  student with id 7 has two submissions made at the same instant: number 1 written as
  01:30 with offset +10:00, number 2 as 02:30 with offset +11:00.  Both share the
  greatest timestamp of the list, and the selection returns the second of them: the
  run prints the link to submission 2.
\<close>

theorem equal_instants_second_selected:
  "submission_instant brisbane_submission = Inr 63848100600000000 \<and>
   submission_instant sydney_submission = Inr 63848100600000000 \<and>
   find_accepted_submission [brisbane_submission, sydney_submission] = Inr sydney_submission \<and>
   main (sample_env [brisbane_submission, sydney_submission]) =
     ([Stdout ''https://edstem.org/au/courses/18651/lessons/61238/slides/414786/submissions?u=7&s=2'',
       Stdout ''https://edstem.org/au/courses/18651/lessons/61238/slides/414786/submissions?q=KASHYAP KOUTILYA%20ADIPUDI''],
      None)"
proof -
  have first: "process_student (sample_service [brisbane_submission, sydney_submission]) example_now
      sample_user_dict sample_student =
      ([Stdout ''https://edstem.org/au/courses/18651/lessons/61238/slides/414786/submissions?u=7&s=2''],
       None)"
    by (simp add: process_student_def sample_lookups fetch_sample_submissions select_sydney
        sydney_id submission_url str_int_7 str_int_2)
  have second: "process_student (sample_service [brisbane_submission, sydney_submission]) example_now
      sample_user_dict second_student =
      ([Stdout ''https://edstem.org/au/courses/18651/lessons/61238/slides/414786/submissions?q=KASHYAP KOUTILYA%20ADIPUDI''],
       None)"
    by (simp add: process_student_def sample_lookups missing_email_url second_names)
  have users: "sample_users \<noteq> []"
    by (simp add: sample_users_def)
  have "main (sample_env [brisbane_submission, sydney_submission]) =
     ([Stdout ''https://edstem.org/au/courses/18651/lessons/61238/slides/414786/submissions?u=7&s=2'',
       Stdout ''https://edstem.org/au/courses/18651/lessons/61238/slides/414786/submissions?q=KASHYAP KOUTILYA%20ADIPUDI''],
      None)"
    by (simp add: main_def sample_env_def read_sample_roster fetch_sample_users users
        sample_directory first second)
  then show ?thesis
    by (simp add: instant_brisbane instant_sydney select_sydney)
qed

end
